theory Spec2Isabelle
  imports Main
begin

section \<open>Strings as the scanner uses them\<close>

text \<open>
  JavaScript strings are modelled as \<^typ>\<open>string\<close>, a list of 8-bit characters, each read
  as the code point of the same number (U+0000 to U+00FF); code points above U+00FF are
  outside the type. \<open>.length\<close> is \<^const>\<open>length\<close>. The white space of \<open>trim\<close> and of the
  regex class \<open>\s\<close> in this range is TAB, LF, VT, FF, CR, SPACE and the no-break space
  U+00A0. \<open>toLowerCase\<close> folds \<open>A\<close>..\<open>Z\<close> and the capital letters U+00C0 to U+00DE (without
  the multiplication sign U+00D7) onto the letters 32 above them. A value that may be
  \<open>undefined\<close> or \<open>null\<close> is a \<^typ>\<open>string option\<close>; \<open>None\<close> and \<open>Some []\<close> are the falsy
  ones.
\<close>

definition isSpace :: "char \<Rightarrow> bool" where
  "isSpace c =
     (c \<in> set [CHR 0x09, CHR 0x0A, CHR 0x0B, CHR 0x0C, CHR 0x0D, CHR '' '', CHR 0xA0])"

text \<open>\<open>s.trim()\<close>\<close>

definition trim :: "string \<Rightarrow> string" where
  "trim s = rev (dropWhile isSpace (rev (dropWhile isSpace s)))"

definition capitals :: string where
  "capitals =
     ''ABCDEFGHIJKLMNOPQRSTUVWXYZ'' @
       [CHR 0xC0, CHR 0xC1, CHR 0xC2, CHR 0xC3, CHR 0xC4, CHR 0xC5, CHR 0xC6, CHR 0xC7,
        CHR 0xC8, CHR 0xC9, CHR 0xCA, CHR 0xCB, CHR 0xCC, CHR 0xCD, CHR 0xCE, CHR 0xCF,
        CHR 0xD0, CHR 0xD1, CHR 0xD2, CHR 0xD3, CHR 0xD4, CHR 0xD5, CHR 0xD6, CHR 0xD8,
        CHR 0xD9, CHR 0xDA, CHR 0xDB, CHR 0xDC, CHR 0xDD, CHR 0xDE]"

definition smalls :: string where
  "smalls =
     ''abcdefghijklmnopqrstuvwxyz'' @
       [CHR 0xE0, CHR 0xE1, CHR 0xE2, CHR 0xE3, CHR 0xE4, CHR 0xE5, CHR 0xE6, CHR 0xE7,
        CHR 0xE8, CHR 0xE9, CHR 0xEA, CHR 0xEB, CHR 0xEC, CHR 0xED, CHR 0xEE, CHR 0xEF,
        CHR 0xF0, CHR 0xF1, CHR 0xF2, CHR 0xF3, CHR 0xF4, CHR 0xF5, CHR 0xF6, CHR 0xF8,
        CHR 0xF9, CHR 0xFA, CHR 0xFB, CHR 0xFC, CHR 0xFD, CHR 0xFE]"

definition lowerChar :: "char \<Rightarrow> char" where
  "lowerChar c = (case map_of (zip capitals smalls) c of Some l \<Rightarrow> l | None \<Rightarrow> c)"

text \<open>\<open>s.toLowerCase()\<close>\<close>

definition toLowerCase :: "string \<Rightarrow> string" where
  "toLowerCase s = map lowerChar s"

text \<open>\<open>s.startsWith(p)\<close>\<close>

fun startsWith :: "string \<Rightarrow> string \<Rightarrow> bool" where
  "startsWith s [] = True"
| "startsWith [] (p # ps) = False"
| "startsWith (c # cs) (p # ps) = (c = p \<and> startsWith cs ps)"

text \<open>\<open>s.includes(p)\<close>\<close>

fun includesStr :: "string \<Rightarrow> string \<Rightarrow> bool" where
  "includesStr [] p = (p = [])"
| "includesStr (c # cs) p = (startsWith (c # cs) p \<or> includesStr cs p)"

text \<open>Truthiness of a possibly missing string: \<open>undefined\<close>, \<open>null\<close> and \<open>''\<close> are falsy.\<close>

fun truthy :: "string option \<Rightarrow> bool" where
  "truthy None = False"
| "truthy (Some s) = (s \<noteq> [])"

text \<open>The rest of a string after the first occurrence of a character, if there is one.\<close>

fun afterFirst :: "char \<Rightarrow> string \<Rightarrow> string option" where
  "afterFirst c [] = None"
| "afterFirst c (x # xs) = (if x = c then Some xs else afterFirst c xs)"

lemma afterFirst_shorter: "afterFirst c xs = Some r \<Longrightarrow> length r < length xs"
  by (induction xs) (auto split: if_splits)

text \<open>
  \<open>s.replace(/<[^>]*>/g, '')\<close>: scanning from the left, a \<open><\<close> that is followed somewhere
  by a \<open>>\<close> starts a match that ends at the first such \<open>>\<close>; the match is deleted and the
  scan goes on behind it. A \<open><\<close> with no \<open>>\<close> behind it stays.
\<close>

function stripTags :: "string \<Rightarrow> string" where
  "stripTags [] = []"
| "stripTags (c # cs) =
     (if c = CHR ''<'' then
        (case afterFirst CHR ''>'' cs of
           Some rest \<Rightarrow> stripTags rest
         | None \<Rightarrow> c # stripTags cs)
      else c # stripTags cs)"
  by pat_completeness auto
termination
  by (relation "measure length") (auto dest: afterFirst_shorter)

text \<open>A string holds a tag when the regex \<open><[^>]*>\<close> matches somewhere in it.\<close>

fun hasTag :: "string \<Rightarrow> bool" where
  "hasTag [] = False"
| "hasTag (c # cs) = ((c = CHR ''<'' \<and> CHR ''>'' \<in> set cs) \<or> hasTag cs)"

text \<open>No white space at either end.\<close>

definition isTrimmed :: "string \<Rightarrow> bool" where
  "isTrimmed s = (s = [] \<or> (\<not> isSpace (hd s) \<and> \<not> isSpace (last s)))"

section \<open>Feed parser: text normalisation\<close>

text \<open>
  A value of the parsed XML tree, as far as the scanner looks at it: missing
  (\<open>undefined\<close> or \<open>null\<close>), a string, an element object with its \<open>#text\<close>, \<open>#cdata\<close>,
  \<open>@href\<close>, \<open>@type\<close> and \<open>@rel\<close> properties, or an array. The \<open>#text\<close> and \<open>#cdata\<close>
  of an object are strings, so that \<open>String(v)\<close> is \<open>v\<close>.
\<close>

datatype xml_value =
    Absent
  | Str string
  | Node (n_text: "string option") (n_cdata: "string option") (n_href: "string option")
         (n_type: "string option") (n_rel: "string option")
  | Arr "xml_value list"

text \<open>
  \<^verbatim>\<open>
  function extractTextContent(value) {
    if (!value) return '';
    if (typeof value === 'string') return value.trim().replace(/<[^>]*>/g, '');
    if (value['#text']) return String(value['#text']).trim().replace(/<[^>]*>/g, '');
    if (value['#cdata']) return String(value['#cdata']).trim().replace(/<[^>]*>/g, '');
    return '';
  }
  \<close>
\<close>

fun extractTextContent :: "xml_value \<Rightarrow> string" where
  "extractTextContent Absent = []"
| "extractTextContent (Str s) = (if s = [] then [] else stripTags (trim s))"
| "extractTextContent (Node t c h ty r) =
     (if truthy t then stripTags (trim (the t))
      else if truthy c then stripTags (trim (the c))
      else [])"
| "extractTextContent (Arr vs) = []"

section \<open>Items, parsed feeds and documents\<close>

text \<open>
  A candidate article, \<open>{ title, link, description, pubDate, author?, source, fullContent? }\<close>.
  A field that may be missing is an option.
\<close>

record raw_item =
  title :: "string option"
  link :: "string option"
  description :: "string option"
  pubDate :: "string option"
  author :: "string option"
  source :: string
  fullContent :: "string option"

text \<open>
  An \<open>item\<close> or \<open>entry\<close> object of the parsed XML, with the properties the parser reads:
  \<open>title\<close>, \<open>link\<close>, \<open>description\<close>, \<open>pubDate\<close>, \<open>dc:date\<close>, \<open>summary\<close>, \<open>content\<close>,
  \<open>published\<close>, \<open>updated\<close>.
\<close>

record feed_item =
  x_title :: xml_value
  x_link :: xml_value
  x_description :: xml_value
  x_pubDate :: xml_value
  x_dc_date :: xml_value
  x_summary :: xml_value
  x_content :: xml_value
  x_published :: xml_value
  x_updated :: xml_value

text \<open>
  What sits at \<open>rss.channel.item\<close>, \<open>feed.entry\<close> or \<open>rdf:RDF.item\<close>: nothing (or a falsy
  value), one object, or an array. An array element may be \<open>null\<close> (\<open>None\<close>), and reading
  a property of it throws.
\<close>

datatype xml_items = NoItems | OneItem feed_item | ItemArray "feed_item option list"

record parsed_xml =
  rss_channel_item :: xml_items
  feed_entry :: xml_items
  rdf_item :: xml_items

datatype js_error = TypeError

text \<open>
  The DOM, as far as the scanner queries it. An element has a tag name, its text content
  and its attributes; the result of \<open>querySelector\<close> also knows its closest enclosing
  anchor; an element of \<open>querySelectorAll\<close> answers \<open>querySelector\<close> itself.
\<close>

record dom_leaf =
  dom_tagName :: string
  dom_textContent :: string
  dom_getAttribute :: "string \<Rightarrow> string option"

record dom_node = dom_leaf +
  closest_a :: "dom_leaf option"

record dom_element = dom_leaf +
  querySelector :: "string \<Rightarrow> dom_node option"

record document =
  doc_querySelector :: "string \<Rightarrow> dom_node option"
  doc_querySelectorAll :: "string \<Rightarrow> dom_element list"

datatype dom_outcome = DomThrows | DomNull | Dom document

section \<open>The world outside the scanner\<close>

text \<open>
  What the scanner calls but does not define is a parameter of the model:
  \<^item> \<open>fetch url k\<close> is what the \<open>k\<close>-th request (counted from 0) of one \<open>fetchWithRetry\<close>
    call to \<open>url\<close> gives: a response, or an exception (a network failure, or the abort
    of the 15 second timeout) with its message; the headers that a caller passes in
    \<open>options\<close> do not change the control flow and are left out;
  \<^item> \<open>now\<close> is \<open>Date.now()\<close> in milliseconds and \<open>nowIso\<close> is \<open>new Date().toISOString()\<close>;
  \<^item> \<open>parseInt10 s\<close> is \<open>parseInt(s, 10)\<close> and \<open>parseDate s\<close> is
    \<open>new Date(s).getTime()\<close>, with \<open>None\<close> for \<open>NaN\<close>;
  \<^item> \<open>parseXML\<close> is the XML library, \<open>None\<close> when it throws;
  \<^item> \<open>parseHTML html\<close> is \<open>new DOMParser().parseFromString(html, "text/html")\<close>;
  \<^item> \<open>urlOrigin u\<close> is \<open>new URL(u).origin\<close>, asked only for the URL of a page that was
    fetched.
\<close>

record response =
  status :: nat
  retryAfter :: "string option"
  body :: string

datatype fetch_outcome = Responds response | Throws string

record world =
  fetch :: "string \<Rightarrow> nat \<Rightarrow> fetch_outcome"
  now :: int
  nowIso :: string
  parseInt10 :: "string \<Rightarrow> int option"
  parseDate :: "string \<Rightarrow> int option"
  parseXML :: "string \<Rightarrow> parsed_xml option"
  parseHTML :: "string \<Rightarrow> dom_outcome"
  urlOrigin :: "string \<Rightarrow> string"

section \<open>Retrying fetcher\<close>

text \<open>The decimal numeral of a number, for the template literal \<open>`HTTP ${response.status}`\<close>.\<close>

definition digit :: "nat \<Rightarrow> char" where
  "digit n = ''0123456789'' ! n"

function decimal :: "nat \<Rightarrow> string" where
  "decimal n = (if n < 10 then [digit n] else decimal (n div 10) @ [digit (n mod 10)])"
  by pat_completeness auto
termination
  by (relation "measure id") auto

declare decimal.simps [simp del]

text \<open>
  What \<open>fetchWithRetry\<close> returns, \<open>{ success, response, error, attempt }\<close>, and what it does
  on the way: the number of requests it sent and the delays it slept, in milliseconds.
\<close>

record fetch_result =
  success :: bool
  fr_response :: "response option"
  fr_error :: "string option"
  attempt :: nat

record fetch_trace =
  requests :: nat
  sleeps :: "int list"

text \<open>\<open>response.ok\<close>\<close>

definition ok :: "response \<Rightarrow> bool" where
  "ok r = (200 \<le> status r \<and> status r \<le> 299)"

text \<open>
  The delay after a 429:
  \<^verbatim>\<open>
  const retryAfter = response.headers.get('Retry-After');
  let waitTime = Math.pow(2, attempt) * 1000;
  if (retryAfter) {
    const parsed = parseInt(retryAfter, 10);
    if (!isNaN(parsed)) { waitTime = parsed * 1000; }
    else {
      const retryDate = new Date(retryAfter);
      if (!isNaN(retryDate.getTime())) waitTime = Math.max(0, retryDate.getTime() - Date.now());
    }
  }
  \<close>
\<close>

definition waitTime :: "world \<Rightarrow> nat \<Rightarrow> response \<Rightarrow> int" where
  "waitTime w att r =
     (if truthy (retryAfter r) then
        (case parseInt10 w (the (retryAfter r)) of
           Some parsed \<Rightarrow> parsed * 1000
         | None \<Rightarrow>
             (case parseDate w (the (retryAfter r)) of
                Some retryDate \<Rightarrow> max 0 (retryDate - now w)
              | None \<Rightarrow> 2 ^ att * 1000))
      else 2 ^ att * 1000)"

text \<open>
  The loop \<open>for (let attempt = 0; attempt < maxRetries; attempt++)\<close> of \<open>fetchWithRetry\<close>,
  entered at \<open>att\<close> with the current \<open>lastError\<close> and the delays slept so far. Each round
  sends one request. A success returns; a 429 that is not the last round sleeps
  \<open>waitTime\<close> and goes on; any other 4xx (and a 429 in the last round) returns the failure;
  a 5xx or an exception is remembered in \<open>lastError\<close>, followed by the backoff sleep
  unless the round is the last.
\<close>

function fetchLoop ::
  "world \<Rightarrow> string \<Rightarrow> nat \<Rightarrow> nat \<Rightarrow> string option \<Rightarrow> int list
     \<Rightarrow> fetch_result \<times> fetch_trace" where
  "fetchLoop w url maxRetries att lastError zs =
     (if att < maxRetries then
        (case fetch w url att of
           Responds r \<Rightarrow>
             if ok r then
               (\<lparr>success = True, fr_response = Some r, fr_error = None, attempt = att + 1\<rparr>,
                \<lparr>requests = att + 1, sleeps = zs\<rparr>)
             else if status r = 429 \<and> att + 1 < maxRetries then
               fetchLoop w url maxRetries (att + 1) lastError (zs @ [waitTime w att r])
             else if 400 \<le> status r \<and> status r < 500 then
               (\<lparr>success = False, fr_response = None,
                 fr_error = Some (''HTTP '' @ decimal (status r)), attempt = att + 1\<rparr>,
                \<lparr>requests = att + 1, sleeps = zs\<rparr>)
             else
               fetchLoop w url maxRetries (att + 1) (Some (''HTTP '' @ decimal (status r)))
                 (if att + 1 < maxRetries then zs @ [2 ^ att * 1000] else zs)
         | Throws msg \<Rightarrow>
             fetchLoop w url maxRetries (att + 1) (Some msg)
               (if att + 1 < maxRetries then zs @ [2 ^ att * 1000] else zs))
      else
        (\<lparr>success = False, fr_response = None, fr_error = lastError, attempt = maxRetries\<rparr>,
         \<lparr>requests = att, sleeps = zs\<rparr>))"
  by pat_completeness auto
termination
  by (relation "measure (\<lambda>(w, url, maxRetries, att, lastError, zs). maxRetries - att)") auto

declare fetchLoop.simps [simp del]

text \<open>\<open>async function fetchWithRetry(url, options = {}, maxRetries = 3)\<close>\<close>

definition fetchWithRetry :: "world \<Rightarrow> string \<Rightarrow> nat \<Rightarrow> fetch_result \<times> fetch_trace" where
  "fetchWithRetry w url maxRetries = fetchLoop w url maxRetries 0 None []"

definition defaultMaxRetries :: nat where
  "defaultMaxRetries = 3"

section \<open>Feed parser\<close>

text \<open>\<open>a || b\<close> on strings, and \<open>v || ''\<close> on a possibly missing string.\<close>

definition orElse :: "string \<Rightarrow> string \<Rightarrow> string" where
  "orElse a b = (if a \<noteq> [] then a else b)"

fun orEmpty :: "string option \<Rightarrow> string" where
  "orEmpty None = []"
| "orEmpty (Some s) = s"

text \<open>
  The properties \<open>v['@href']\<close>, \<open>v['@type']\<close> and \<open>v['@rel']\<close>: only an element object has
  them; on a string or an array they are \<open>undefined\<close>.
\<close>

fun prop_href :: "xml_value \<Rightarrow> string option" where
  "prop_href (Node t c h ty r) = h"
| "prop_href v = None"

fun prop_type :: "xml_value \<Rightarrow> string option" where
  "prop_type (Node t c h ty r) = ty"
| "prop_type v = None"

fun prop_rel :: "xml_value \<Rightarrow> string option" where
  "prop_rel (Node t c h ty r) = r"
| "prop_rel v = None"

text \<open>Truthiness of a value of the parsed tree: objects and arrays are truthy.\<close>

fun isTruthy :: "xml_value \<Rightarrow> bool" where
  "isTruthy Absent = False"
| "isTruthy (Str s) = (s \<noteq> [])"
| "isTruthy v = True"

text \<open>The object literal \<open>{ title, link, description, pubDate, source: feedName }\<close>.\<close>

definition mkItem :: "string \<Rightarrow> string \<Rightarrow> string \<Rightarrow> string \<Rightarrow> string \<Rightarrow> raw_item" where
  "mkItem t l d p feedName =
     \<lparr>title = Some t, link = Some l, description = Some d, pubDate = Some p,
      author = None, source = feedName, fullContent = None\<rparr>"

text \<open>
  One round of the RSS 2.0 loop; it yields the items to push.
  \<^verbatim>\<open>
  const title = extractTextContent(item.title);
  const link = extractTextContent(item.link) || item.link?.['@href'] || '';
  const description = extractTextContent(item.description);
  const pubDate = extractTextContent(item.pubDate) || extractTextContent(item['dc:date']);
  if (title) { items.push({ title, link, description, pubDate, source: feedName }); }
  \<close>
\<close>

definition rssItem :: "string \<Rightarrow> feed_item \<Rightarrow> js_error + raw_item list" where
  "rssItem feedName item =
     (let t = extractTextContent (x_title item);
          l = orElse (extractTextContent (x_link item)) (orEmpty (prop_href (x_link item)));
          d = extractTextContent (x_description item);
          p = orElse (extractTextContent (x_pubDate item)) (extractTextContent (x_dc_date item))
      in Inr (if t \<noteq> [] then [mkItem t l d p feedName] else []))"

text \<open>
  \<open>entry.link.find(l => l['@type'] === 'text/html' || l['@rel'] === 'alternate')\<close>:
  \<open>Absent\<close> stands for \<open>undefined\<close> as the result, and reading a property of a \<open>null\<close>
  element throws.
\<close>

fun findHtmlLink :: "xml_value list \<Rightarrow> js_error + xml_value" where
  "findHtmlLink [] = Inr Absent"
| "findHtmlLink (Absent # ls) = Inl TypeError"
| "findHtmlLink (l # ls) =
     (if prop_type l = Some ''text/html'' \<or> prop_rel l = Some ''alternate'' then Inr l
      else findHtmlLink ls)"

text \<open>
  \<^verbatim>\<open>
  let link = '';
  if (entry.link) {
    if (Array.isArray(entry.link)) {
      const htmlLink = entry.link.find(...);
      link = htmlLink?.['@href'] || entry.link[0]?.['@href'] || '';
    } else {
      link = entry.link['@href'] || extractTextContent(entry.link);
    }
  }
  \<close>
\<close>

fun atomLink :: "xml_value \<Rightarrow> js_error + string" where
  "atomLink (Arr ls) =
     (case findHtmlLink ls of
        Inl e \<Rightarrow> Inl e
      | Inr htmlLink \<Rightarrow>
          Inr (orElse (orEmpty (prop_href htmlLink))
                 (orEmpty (case ls of [] \<Rightarrow> None | l0 # _ \<Rightarrow> prop_href l0))))"
| "atomLink v =
     Inr (if isTruthy v then orElse (orEmpty (prop_href v)) (extractTextContent v) else [])"

text \<open>One round of the Atom loop.\<close>

definition atomEntry :: "string \<Rightarrow> feed_item \<Rightarrow> js_error + raw_item list" where
  "atomEntry feedName entry =
     (let t = extractTextContent (x_title entry) in
      case atomLink (x_link entry) of
        Inl e \<Rightarrow> Inl e
      | Inr l \<Rightarrow>
          (let d = orElse (extractTextContent (x_summary entry)) (extractTextContent (x_content entry));
               p = orElse (extractTextContent (x_published entry)) (extractTextContent (x_updated entry))
           in Inr (if t \<noteq> [] then [mkItem t l d p feedName] else [])))"

text \<open>One round of the RDF (RSS 1.0) loop.\<close>

definition rdfItem :: "string \<Rightarrow> feed_item \<Rightarrow> js_error + raw_item list" where
  "rdfItem feedName item =
     (let t = extractTextContent (x_title item);
          l = extractTextContent (x_link item);
          d = extractTextContent (x_description item);
          p = extractTextContent (x_dc_date item)
      in Inr (if t \<noteq> [] then [mkItem t l d p feedName] else []))"

text \<open>\<open>Array.isArray(x) ? x : [x]\<close>, under the guard \<open>if (x)\<close>.\<close>

fun asArray :: "xml_items \<Rightarrow> feed_item option list" where
  "asArray NoItems = []"
| "asArray (OneItem i) = [Some i]"
| "asArray (ItemArray xs) = xs"

text \<open>
  \<open>for (const item of array) { ... }\<close>, pushing onto \<open>items\<close>; a \<open>null\<close> element makes the
  first property read throw.
\<close>

fun forEach :: "(feed_item \<Rightarrow> js_error + raw_item list) \<Rightarrow> feed_item option list
     \<Rightarrow> raw_item list \<Rightarrow> js_error + raw_item list" where
  "forEach f [] items = Inr items"
| "forEach f (None # xs) items = Inl TypeError"
| "forEach f (Some x # xs) items =
     (case f x of Inl e \<Rightarrow> Inl e | Inr new \<Rightarrow> forEach f xs (items @ new))"

text \<open>
  The body of the \<open>try\<close> of \<open>parseRssFeed\<close> behind \<open>parseXML\<close>: the three branches run one
  after the other on the same \<open>items\<close>.
\<close>

definition parseStructured :: "string \<Rightarrow> parsed_xml \<Rightarrow> js_error + raw_item list" where
  "parseStructured feedName parsed =
     (case forEach (rssItem feedName) (asArray (rss_channel_item parsed)) [] of
        Inl e \<Rightarrow> Inl e
      | Inr items1 \<Rightarrow>
          (case forEach (atomEntry feedName) (asArray (feed_entry parsed)) items1 of
             Inl e \<Rightarrow> Inl e
           | Inr items2 \<Rightarrow> forEach (rdfItem feedName) (asArray (rdf_item parsed)) items2))"

subsection \<open>The regular expressions of the fallback\<close>

text \<open>A literal of a pattern against a character, with or without the flag \<open>i\<close>.\<close>

definition sameChar :: "bool \<Rightarrow> char \<Rightarrow> char \<Rightarrow> bool" where
  "sameChar ci a b = (if ci then lowerChar a = lowerChar b else a = b)"

text \<open>The literal text \<open>p\<close> matches at the start of \<open>s\<close>.\<close>

fun matchesAt :: "bool \<Rightarrow> string \<Rightarrow> string \<Rightarrow> bool" where
  "matchesAt ci [] s = True"
| "matchesAt ci (p # ps) [] = False"
| "matchesAt ci (p # ps) (c # cs) = (sameChar ci p c \<and> matchesAt ci ps cs)"

text \<open>The first occurrence of the literal text \<open>p\<close> in \<open>s\<close>: what is before and after it.\<close>

fun findSub :: "bool \<Rightarrow> string \<Rightarrow> string \<Rightarrow> (string \<times> string) option" where
  "findSub ci p [] = (if p = [] then Some ([], []) else None)"
| "findSub ci p (c # cs) =
     (if matchesAt ci p (c # cs) then Some ([], drop (length p) (c # cs))
      else (case findSub ci p cs of
              None \<Rightarrow> None
            | Some (before, after) \<Rightarrow> Some (c # before, after)))"

lemma findSub_shorter:
  "findSub ci p s = Some (b, a) \<Longrightarrow> p \<noteq> [] \<Longrightarrow> length a < length s"
  by (induction s arbitrary: b) (auto split: if_splits option.splits)

text \<open>
  The first groups of \<open>xmlText.matchAll(/<item>([\s\S]*?)<\/item>/gi)\<close> (and the same for
  \<open>entry\<close>): a match starts at the first opening tag and ends at the first closing tag
  behind it, and the search goes on behind the match.
\<close>

function tagBlocks :: "string \<Rightarrow> string \<Rightarrow> string list" where
  "tagBlocks tag s =
     (case findSub True (''<'' @ tag @ ''>'') s of
        None \<Rightarrow> []
      | Some (skipped, r) \<Rightarrow>
          (case findSub True (''</'' @ tag @ ''>'') r of
             None \<Rightarrow> []
           | Some (inner, r') \<Rightarrow> inner # tagBlocks tag r'))"
  by pat_completeness auto
termination
proof (relation "measure (\<lambda>(tag, s). length s)", goal_cases)
  case 1
  show ?case by simp
next
  case (2 tag s x2 skipped r x2a inner r')
  then have "length r < length s" "length r' < length r"
    by (auto dest: findSub_shorter)
  then show ?case by simp
qed

declare tagBlocks.simps [simp del]

text \<open>
  \<^verbatim>\<open>
  function extractTagFallback(xml, tagName) {
    const regex = new RegExp(`<${tagName}[^>]*><!\\[CDATA\\[([\\s\\S]*?)\\]\\]><\\/${tagName}>|<${tagName}[^>]*>([\\s\\S]*?)<\\/${tagName}>`, 'i');
    const match = xml.match(regex);
    if (match) { return (match[1] || match[2] || '').trim().replace(/<[^>]*>/g, ''); }
    return '';
  }
  \<close>
  The match starts at the first \<open><tagName\<close>; \<open>[^>]*>\<close> runs to the first \<open>>\<close> behind
  it. The CDATA alternative is tried first: \<open><![CDATA[\<close> must follow at once, and the
  group runs to the first \<open>]]></tagName>\<close>. Otherwise the group runs to the first
  \<open></tagName>\<close>. When both fail there, they fail at every later start as well.
\<close>

definition extractTagFallback :: "string \<Rightarrow> string \<Rightarrow> string" where
  "extractTagFallback xml tagName =
     (case findSub True (''<'' @ tagName) xml of
        None \<Rightarrow> []
      | Some (skipped, r1) \<Rightarrow>
          (case afterFirst CHR ''>'' r1 of
             None \<Rightarrow> []
           | Some r2 \<Rightarrow>
               (case (if matchesAt True ''<![CDATA['' r2
                      then findSub True ('']]></'' @ tagName @ ''>'') (drop 9 r2) else None) of
                  Some (g1, rest) \<Rightarrow> stripTags (trim g1)
                | None \<Rightarrow>
                    (case findSub True (''</'' @ tagName @ ''>'') r2 of
                       None \<Rightarrow> []
                     | Some (g2, rest) \<Rightarrow> stripTags (trim g2)))))"

text \<open>
  \<open>entryXml.match(/<link[^>]*href=["']([^"']*)["']/)\<close>, group 1. Behind \<open><link\<close> the greedy
  \<open>[^>]*\<close> gives back characters until \<open>href=\<close>, a quote, and a later quote are found: the
  last \<open>href=\<close> before the first \<open>>\<close> with a closing quote wins, and its value runs to the
  next quote. A \<open><link\<close> without such an attribute is passed over.
\<close>

definition isQuote :: "char \<Rightarrow> bool" where
  "isQuote c = (c = CHR 0x22 \<or> c = CHR 0x27)"

definition hrefHere :: "string \<Rightarrow> string option" where
  "hrefHere s =
     (if matchesAt False ''href='' s \<and> (case drop 5 s of [] \<Rightarrow> False | q # v \<Rightarrow> isQuote q)
         \<and> (\<exists>c \<in> set (drop 6 s). isQuote c)
      then Some (takeWhile (\<lambda>c. \<not> isQuote c) (drop 6 s)) else None)"

fun hrefInTag :: "string \<Rightarrow> string option" where
  "hrefInTag [] = None"
| "hrefInTag (c # cs) =
     (if c = CHR ''>'' then None
      else (case hrefInTag cs of Some v \<Rightarrow> Some v | None \<Rightarrow> hrefHere (c # cs)))"

function linkMatch :: "string \<Rightarrow> string option" where
  "linkMatch s =
     (case findSub False ''<link'' s of
        None \<Rightarrow> None
      | Some (skipped, r) \<Rightarrow>
          (case hrefInTag r of Some v \<Rightarrow> Some v | None \<Rightarrow> linkMatch r))"
  by pat_completeness auto
termination
  by (relation "measure length") (auto dest: findSub_shorter)

declare linkMatch.simps [simp del]

subsection \<open>The fallback parser and \<open>parseRssFeed\<close>\<close>

text \<open>
  One round of the \<open><item>\<close> loop of \<open>parseRssFeedFallback\<close>:
  \<^verbatim>\<open>
  const title = extractTagFallback(itemXml, 'title');
  const link = extractTagFallback(itemXml, 'link');
  const description = extractTagFallback(itemXml, 'description');
  const pubDate = extractTagFallback(itemXml, 'pubDate') || extractTagFallback(itemXml, 'dc:date');
  if (title) { items.push({ title, link, description, pubDate, source: feedName }); }
  \<close>
\<close>

definition fallbackItem :: "string \<Rightarrow> string \<Rightarrow> raw_item list" where
  "fallbackItem feedName itemXml =
     (let t = extractTagFallback itemXml ''title'';
          l = extractTagFallback itemXml ''link'';
          d = extractTagFallback itemXml ''description'';
          p = orElse (extractTagFallback itemXml ''pubDate'') (extractTagFallback itemXml ''dc:date'')
      in if t \<noteq> [] then [mkItem t l d p feedName] else [])"

text \<open>One round of its \<open><entry>\<close> loop.\<close>

definition fallbackEntry :: "string \<Rightarrow> string \<Rightarrow> raw_item list" where
  "fallbackEntry feedName entryXml =
     (let t = extractTagFallback entryXml ''title'';
          l = orEmpty (linkMatch entryXml);
          d = orElse (extractTagFallback entryXml ''summary'') (extractTagFallback entryXml ''content'');
          p = orElse (extractTagFallback entryXml ''published'') (extractTagFallback entryXml ''updated'')
      in if t \<noteq> [] then [mkItem t l d p feedName] else [])"

text \<open>The \<open><entry>\<close> loop runs only when the \<open><item>\<close> loop gave nothing.\<close>

definition parseRssFeedFallback :: "string \<Rightarrow> string \<Rightarrow> raw_item list" where
  "parseRssFeedFallback xmlText feedName =
     (let items = concat (map (fallbackItem feedName) (tagBlocks ''item'' xmlText))
      in if items = [] then concat (map (fallbackEntry feedName) (tagBlocks ''entry'' xmlText))
         else items)"

text \<open>
  \<open>parseRssFeed\<close>: any exception of the \<open>try\<close> block, from the XML library or from a
  property read, hands the whole text to the fallback; what had been pushed is dropped.
\<close>

definition parseRssFeed :: "world \<Rightarrow> string \<Rightarrow> string \<Rightarrow> raw_item list" where
  "parseRssFeed w xmlText feedName =
     (case parseXML w xmlText of
        None \<Rightarrow> parseRssFeedFallback xmlText feedName
      | Some parsed \<Rightarrow>
          (case parseStructured feedName parsed of
             Inl e \<Rightarrow> parseRssFeedFallback xmlText feedName
           | Inr items \<Rightarrow> items))"

section \<open>Date range and the fetch of one feed\<close>

definition msPerDay :: int where
  "msPerDay = 86400000"

text \<open>
  \<^verbatim>\<open>
  function isWithinDateRange(dateStr, dateRangeDays = 14) {
    if (!dateStr) return true;
    try {
      const itemDate = new Date(dateStr);
      const cutoffDate = new Date();
      cutoffDate.setDate(cutoffDate.getDate() - dateRangeDays);
      return itemDate >= cutoffDate;
    } catch { return true; }
  }
  \<close>
  \<open>new Date(s)\<close> does not throw; for a text it cannot read its time value is \<open>NaN\<close>, and a
  comparison with \<open>NaN\<close> is false. The cutoff is taken as \<open>dateRangeDays\<close> days of 24 hours
  before now (the calendar arithmetic of \<open>setDate\<close> without a daylight-saving shift).
\<close>

definition isWithinDateRange :: "world \<Rightarrow> string option \<Rightarrow> nat \<Rightarrow> bool" where
  "isWithinDateRange w dateStr dateRangeDays =
     (if \<not> truthy dateStr then True
      else (case parseDate w (the dateStr) of
              None \<Rightarrow> False
            | Some itemDate \<Rightarrow> itemDate \<ge> now w - int dateRangeDays * msPerDay))"

text \<open>
  The health record of a source. The fields a scan does not set are missing from the
  object it builds.
\<close>

datatype health_status = Healthy | Degraded | Failing

record source_health =
  source_name :: string
  source_url :: string
  source_type :: string
  last_check :: string
  h_status :: health_status
  last_success :: "string option"
  items_fetched :: "nat option"
  error_message :: "string option"
  consecutive_failures :: "nat option"
  retries_used :: "nat option"

record feed =
  name :: string
  url :: string
  region :: string

record source_result =
  items :: "raw_item list"
  health :: source_health
  error :: "string option"

text \<open>A possibly missing string inside a template literal.\<close>

fun orUndefined :: "string option \<Rightarrow> string" where
  "orUndefined None = ''undefined''"
| "orUndefined (Some s) = s"

text \<open>
  \<^verbatim>\<open>
  const result = await fetchWithRetry(feed.url, { headers: ... });
  if (result.success) {
    const xmlText = await result.response.text();
    const items = parseRssFeed(xmlText, feed.name);
    const recentItems = items.filter(item => isWithinDateRange(item.pubDate, dateRangeDays)).slice(0, 20);
    healthRecord.status = "healthy";
    healthRecord.last_success = healthRecord.last_check;
    healthRecord.items_fetched = recentItems.length;
    healthRecord.consecutive_failures = 0;
    healthRecord.retries_used = result.attempt;
    return { items: recentItems, health: healthRecord, error: null };
  } else {
    healthRecord.status = "failing";
    healthRecord.error_message = result.error;
    healthRecord.retries_used = result.attempt;
    return { items: [], health: healthRecord, error: `RSS ${feed.name}: ${result.error}` };
  }
  \<close>
\<close>

definition fetchRssFeed :: "world \<Rightarrow> feed \<Rightarrow> nat \<Rightarrow> source_result" where
  "fetchRssFeed w fd dateRangeDays =
     (let result = fst (fetchWithRetry w (url fd) defaultMaxRetries) in
      if success result then
        (let xmlText = body (the (fr_response result));
             parsed = parseRssFeed w xmlText (name fd);
             recentItems = take 20 (filter (\<lambda>item. isWithinDateRange w (pubDate item) dateRangeDays) parsed)
         in \<lparr>items = recentItems,
             health = \<lparr>source_name = name fd, source_url = url fd, source_type = ''rss'',
                        last_check = nowIso w, h_status = Healthy, last_success = Some (nowIso w),
                        items_fetched = Some (length recentItems), error_message = None,
                        consecutive_failures = Some 0, retries_used = Some (attempt result)\<rparr>,
             error = None\<rparr>)
      else
        \<lparr>items = [],
         health = \<lparr>source_name = name fd, source_url = url fd, source_type = ''rss'',
                    last_check = nowIso w, h_status = Failing, last_success = None,
                    items_fetched = None, error_message = fr_error result,
                    consecutive_failures = None, retries_used = Some (attempt result)\<rparr>,
         error = Some (''RSS '' @ name fd @ '': '' @ orUndefined (fr_error result))\<rparr>)"

section \<open>Deduplicator\<close>

text \<open>\<open>v?.toLowerCase().trim()\<close>: the normalised key of a title or a URL, \<open>undefined\<close> for a missing one.\<close>

definition normKey :: "string option \<Rightarrow> string option" where
  "normKey v = map_option (\<lambda>s. trim (toLowerCase s)) v"

text \<open>
  Phase A, the filter over the batch with its two sets:
  \<^verbatim>\<open>
  const seenInBatch = new Set();
  const seenUrlsInBatch = new Set();
  const batchDeduped = items.filter(item => {
    const titleKey = item.title?.toLowerCase().trim();
    const urlKey = item.link?.toLowerCase().trim();
    if (seenInBatch.has(titleKey)) return false;
    if (urlKey && seenUrlsInBatch.has(urlKey)) return false;
    seenInBatch.add(titleKey);
    if (urlKey) seenUrlsInBatch.add(urlKey);
    return true;
  });
  \<close>
  The keys of an item enter the sets only when the item is kept.
\<close>

fun batchFilter :: "string option set \<Rightarrow> string option set \<Rightarrow> raw_item list \<Rightarrow> raw_item list" where
  "batchFilter seenInBatch seenUrlsInBatch [] = []"
| "batchFilter seenInBatch seenUrlsInBatch (item # rest) =
     (let titleKey = normKey (title item);
          urlKey = normKey (link item)
      in if titleKey \<in> seenInBatch then batchFilter seenInBatch seenUrlsInBatch rest
         else if truthy urlKey \<and> urlKey \<in> seenUrlsInBatch then
           batchFilter seenInBatch seenUrlsInBatch rest
         else
           item # batchFilter (insert titleKey seenInBatch)
                    (if truthy urlKey then insert urlKey seenUrlsInBatch else seenUrlsInBatch) rest)"

text \<open>
  Modelled from the spec: the update store is an external collaborator with
  \<open>filter(predicate) -> records\<close>. Here it is the list of its records, as far as the
  deduplicator reads them: the title and the source URL. \<open>created\<close> is the time the record
  was written, in milliseconds; the deduplicator never reads it. A store that is not
  reachable makes the query throw.
\<close>

record regulatory_update =
  u_title :: "string option"
  u_source_url :: "string option"
  created :: int

record update_store =
  records :: "regulatory_update list"
  reachable :: bool

text \<open>\<open>base44.asServiceRole.entities.RegulatoryUpdate.filter({})\<close>: every record, in the order of the store.\<close>

definition filterAll :: "update_store \<Rightarrow> regulatory_update list option" where
  "filterAll st = (if reachable st then Some (records st) else None)"

text \<open>
  \<^verbatim>\<open>
  if (batchDeduped.length === 0) return [];
  ...
  let existingUpdates = [];
  try {
    // Fetch recent updates (last 60 days) for title matching
    // This is more efficient than fetching ALL records
    const sixtyDaysAgo = new Date();
    sixtyDaysAgo.setDate(sixtyDaysAgo.getDate() - 60);
    existingUpdates = await base44.asServiceRole.entities.RegulatoryUpdate.filter({});
    // If we have too many records, just check the last 500
    if (existingUpdates.length > 500) { existingUpdates = existingUpdates.slice(0, 500); }
  } catch (err) { return batchDeduped; }
  const existingTitles = new Set(existingUpdates.map(u => u.title?.toLowerCase().trim()).filter(Boolean));
  const existingUrls = new Set(existingUpdates.map(u => u.source_url?.toLowerCase().trim()).filter(Boolean));
  return batchDeduped.filter(item => {
    const normalizedTitle = item.title?.toLowerCase().trim();
    const normalizedUrl = item.link?.toLowerCase().trim();
    if (existingTitles.has(normalizedTitle)) return false;
    if (normalizedUrl && existingUrls.has(normalizedUrl)) return false;
    return true;
  });
  \<close>
  \<open>sixtyDaysAgo\<close> is computed and not used: the query has the empty predicate. (The lists
  \<open>newUrls\<close> and \<open>newTitles\<close> that the source builds before the query are not used either
  and are left out.)
\<close>

definition deduplicateItems :: "world \<Rightarrow> update_store \<Rightarrow> raw_item list \<Rightarrow> raw_item list" where
  "deduplicateItems w st its =
     (let batchDeduped = batchFilter {} {} its in
      if batchDeduped = [] then []
      else
        (let sixtyDaysAgo = now w - 60 * msPerDay in
         case filterAll st of
           None \<Rightarrow> batchDeduped
         | Some fetched \<Rightarrow>
             (let existingUpdates = (if length fetched > 500 then take 500 fetched else fetched);
                  existingTitles = set (filter truthy (map (\<lambda>u. normKey (u_title u)) existingUpdates));
                  existingUrls = set (filter truthy (map (\<lambda>u. normKey (u_source_url u)) existingUpdates))
              in filter (\<lambda>item.
                   let normalizedTitle = normKey (title item);
                       normalizedUrl = normKey (link item)
                   in if normalizedTitle \<in> existingTitles then False
                      else if truthy normalizedUrl \<and> normalizedUrl \<in> existingUrls then False
                      else True) batchDeduped)))"

section \<open>Source health\<close>

text \<open>
  Modelled from the spec: the health store is an external collaborator with
  \<open>filter(predicate) -> records\<close>, \<open>create(record) -> record\<close> and
  \<open>update(id, patch) -> record\<close>. Here it is a list of rows, each with the identifier the
  store gave it: \<open>filter\<close> selects by \<open>source_url\<close> in the order of the store, \<open>update\<close>
  merges a patch into the row with the given identifier (a field the patch does not have
  keeps its stored value), \<open>create\<close> appends a row. When the store is not reachable the
  calls throw.
\<close>

record health_row =
  row_id :: nat
  row :: source_health

record health_store =
  rows :: "health_row list"
  health_reachable :: bool

text \<open>\<open>prev.consecutive_failures || 0\<close>\<close>

fun orZero :: "nat option \<Rightarrow> nat" where
  "orZero None = 0"
| "orZero (Some n) = n"

definition orPrev :: "'a option \<Rightarrow> 'a option \<Rightarrow> 'a option" where
  "orPrev new old = (case new of None \<Rightarrow> old | Some v \<Rightarrow> Some v)"

definition applyPatch :: "source_health \<Rightarrow> source_health \<Rightarrow> source_health" where
  "applyPatch old patch =
     \<lparr>source_name = source_name patch, source_url = source_url patch,
      source_type = source_type patch, last_check = last_check patch,
      h_status = h_status patch,
      last_success = orPrev (last_success patch) (last_success old),
      items_fetched = orPrev (items_fetched patch) (items_fetched old),
      error_message = orPrev (error_message patch) (error_message old),
      consecutive_failures = orPrev (consecutive_failures patch) (consecutive_failures old),
      retries_used = orPrev (retries_used patch) (retries_used old)\<rparr>"

definition SourceHealth_filter :: "health_store \<Rightarrow> string \<Rightarrow> health_row list" where
  "SourceHealth_filter st u = filter (\<lambda>r. source_url (row r) = u) (rows st)"

definition SourceHealth_update :: "health_store \<Rightarrow> nat \<Rightarrow> source_health \<Rightarrow> health_store" where
  "SourceHealth_update st i patch =
     st\<lparr>rows := map (\<lambda>r. if row_id r = i then r\<lparr>row := applyPatch (row r) patch\<rparr> else r) (rows st)\<rparr>"

definition SourceHealth_create :: "health_store \<Rightarrow> source_health \<Rightarrow> health_store" where
  "SourceHealth_create st h = st\<lparr>rows := rows st @ [\<lparr>row_id = length (rows st), row = h\<rparr>]\<rparr>"

text \<open>
  The update of one health record in phase 3 of the scan:
  \<^verbatim>\<open>
  const healthUpdatePromises = sourceHealthUpdates.map(async (health) => {
    try {
      const existing = await base44.asServiceRole.entities.SourceHealth.filter({ source_url: health.source_url });
      if (existing.length > 0) {
        const prev = existing[0];
        const consecutiveFailures = health.status === "failing"
          ? (prev.consecutive_failures || 0) + 1
          : 0;
        await base44.asServiceRole.entities.SourceHealth.update(prev.id, {
          ...health,
          consecutive_failures: consecutiveFailures
        });
      } else {
        await base44.asServiceRole.entities.SourceHealth.create(health);
      }
    } catch (err) {
      // Silently continue if health tracking fails
    }
  });
  \<close>
\<close>

definition healthUpdate :: "health_store \<Rightarrow> source_health \<Rightarrow> health_store" where
  "healthUpdate st h =
     (if \<not> health_reachable st then st
      else (case SourceHealth_filter st (source_url h) of
              [] \<Rightarrow> SourceHealth_create st h
            | prev # others \<Rightarrow>
                (let consecutiveFailures =
                       (if h_status h = Failing then orZero (consecutive_failures (row prev)) + 1
                        else 0)
                 in SourceHealth_update st (row_id prev)
                      (h\<lparr>consecutive_failures := Some consecutiveFailures\<rparr>))))"

text \<open>
  One scan of one feed, as far as its health record goes: phase 1 builds the record
  (\<open>fetchRssFeed\<close>, with the default range of 14 days), phase 3 writes it.
\<close>

definition scanFeedHealth :: "world \<Rightarrow> feed \<Rightarrow> health_store \<Rightarrow> health_store" where
  "scanFeedHealth w fd st = healthUpdate st (health (fetchRssFeed w fd 14))"

section \<open>Site scraper\<close>

text \<open>\<open>s.replace(/\s+/g, ' ')\<close>: every run of white space becomes one space.\<close>

function collapseWs :: "string \<Rightarrow> string" where
  "collapseWs [] = []"
| "collapseWs (c # cs) =
     (if isSpace c then CHR '' '' # collapseWs (dropWhile isSpace cs) else c # collapseWs cs)"
  by pat_completeness auto
termination
  by (relation "measure length") (auto simp: less_Suc_eq_le length_dropWhile_le)

text \<open>\<open>parts.join(sep)\<close>\<close>

fun joinWith :: "string \<Rightarrow> string list \<Rightarrow> string" where
  "joinWith sep [] = []"
| "joinWith sep [x] = x"
| "joinWith sep (x # y # ys) = x @ sep @ joinWith sep (y # ys)"

text \<open>A chain \<open>a || b || c\<close> of possibly missing strings: the first truthy one, if any.\<close>

fun firstTruthy :: "string option list \<Rightarrow> string option" where
  "firstTruthy [] = None"
| "firstTruthy (v # vs) = (if truthy v then v else firstTruthy vs)"

text \<open>An element seen as a plain element (its tag name, text and attributes).\<close>

definition leafOf :: "'a dom_leaf_scheme \<Rightarrow> dom_leaf" where
  "leafOf n = dom_leaf.truncate n"

text \<open>
  One match of a \<open>titlePattern\<close>: its groups 1 to 4, \<open>undefined\<close> for a group that took no
  part. The pattern of a configuration is given by what \<open>html.matchAll(pattern)\<close> returns.
\<close>

record regex_match =
  g1 :: "string option"
  g2 :: "string option"
  g3 :: "string option"
  g4 :: "string option"

text \<open>
  A scrape configuration: the \<open>name\<close>, \<open>url\<close> and \<open>region\<close> of a source and the optional
  properties the scraper reads. Of \<open>datePattern\<close> only its presence matters.
\<close>

record scrape_config = feed +
  articleSelector :: "string option"
  titlePattern :: "(string \<Rightarrow> regex_match list) option"
  datePattern :: bool
  baseUrl :: "string option"
  useRegexOnly :: bool
  titleSelector :: "string option"
  dateSelector :: "string option"
  descriptionSelector :: "string option"
  authorSelector :: "string option"

text \<open>What \<open>scrapeWebsite\<close> returns, \<open>{ items, error, retries }\<close>.\<close>

record scrape_result =
  sc_items :: "raw_item list"
  sc_error :: "string option"
  retries :: nat

text \<open>
  The stoplist of the two regex loops:
  \<^verbatim>\<open>
  title.toLowerCase().includes('view all') || title.toLowerCase().includes('read more') ||
  title.toLowerCase().includes('subscribe')
  \<close>
\<close>

definition stoplisted :: "string \<Rightarrow> bool" where
  "stoplisted t =
     (includesStr (toLowerCase t) ''view all'' \<or> includesStr (toLowerCase t) ''read more''
      \<or> includesStr (toLowerCase t) ''subscribe'')"

text \<open>
  The loop of the regex-only mode over \<open>matches.slice(0, 20)\<close>, with the set \<open>seen\<close>:
  \<^verbatim>\<open>
  let link = match[1] || match[3] || '';
  let title = match[2] || match[4] || '';
  title = title.replace(/<[^>]*>/g, '').replace(/\s+/g, ' ').trim();
  if (!title || title.length < 15 || seen.has(title.toLowerCase())) continue;
  seen.add(title.toLowerCase());
  if (link && !link.startsWith('http') && config.baseUrl) {
    link = link.startsWith('/') ? config.baseUrl + link : config.baseUrl + '/' + link;
  }
  if (title.toLowerCase().includes('view all') || ... || title.length > 300) continue;
  items.push({ title: title, link: link, description: '', pubDate: new Date().toISOString(),
               source: config.name });
  \<close>
\<close>

fun regexOnlyLoop :: "world \<Rightarrow> scrape_config \<Rightarrow> string set \<Rightarrow> regex_match list \<Rightarrow> raw_item list" where
  "regexOnlyLoop w cfg seen [] = []"
| "regexOnlyLoop w cfg seen (m # ms) =
     (let lnk = orElse (orEmpty (g1 m)) (orEmpty (g3 m));
          t = trim (collapseWs (stripTags (orElse (orEmpty (g2 m)) (orEmpty (g4 m)))))
      in if t = [] \<or> length t < 15 \<or> toLowerCase t \<in> seen then regexOnlyLoop w cfg seen ms
         else
           (let lnk' = (if lnk \<noteq> [] \<and> \<not> startsWith lnk ''http'' \<and> truthy (baseUrl cfg)
                        then (if startsWith lnk ''/'' then the (baseUrl cfg) @ lnk
                              else the (baseUrl cfg) @ ''/'' @ lnk)
                        else lnk)
            in if stoplisted t \<or> length t > 300 then
                 regexOnlyLoop w cfg (insert (toLowerCase t) seen) ms
               else
                 \<lparr>title = Some t, link = Some lnk', description = Some [], pubDate = Some (nowIso w),
                  author = None, source = name cfg, fullContent = None\<rparr>
                 # regexOnlyLoop w cfg (insert (toLowerCase t) seen) ms))"

text \<open>
  The loop of the \<open>catch\<close> branch over \<open>matches.slice(0, 15)\<close>: the title is stripped of
  tags and trimmed, the threshold is \<open>title.length < 10\<close>, \<open>seen\<close> holds the titles as
  they are, and a relative link is \<open>config.baseUrl + link\<close>.
\<close>

fun fallbackLoop :: "world \<Rightarrow> scrape_config \<Rightarrow> string set \<Rightarrow> regex_match list \<Rightarrow> raw_item list" where
  "fallbackLoop w cfg seen [] = []"
| "fallbackLoop w cfg seen (m # ms) =
     (let lnk = orElse (orEmpty (g1 m)) (orEmpty (g3 m));
          t = trim (stripTags (orElse (orEmpty (g2 m)) (orEmpty (g4 m))))
      in if t = [] \<or> length t < 10 \<or> t \<in> seen then fallbackLoop w cfg seen ms
         else
           (let lnk' = (if lnk \<noteq> [] \<and> \<not> startsWith lnk ''http'' \<and> truthy (baseUrl cfg)
                        then the (baseUrl cfg) @ lnk else lnk)
            in if stoplisted t \<or> length t > 300 then
                 fallbackLoop w cfg (insert t seen) ms
               else
                 \<lparr>title = Some t, link = Some lnk', description = Some [], pubDate = Some (nowIso w),
                  author = None, source = name cfg, fullContent = None\<rparr>
                 # fallbackLoop w cfg (insert t seen) ms))"

text \<open>
  The anchor and the raw title of one selected element:
  \<^verbatim>\<open>
  if (config.titleSelector && el.querySelector(config.titleSelector)) {
    const titleEl = el.querySelector(config.titleSelector);
    title = titleEl.textContent?.trim() || '';
    anchor = titleEl.tagName === 'A' ? titleEl : titleEl.closest('a') || el.querySelector('a');
  } else {
    anchor = el.tagName === 'A' ? el : el.querySelector('a');
    if (anchor) title = anchor.textContent?.trim() || '';
  }
  \<close>
  The selectors of a configuration are taken to be valid, so that \<open>querySelector\<close> does
  not throw.
\<close>

definition domCandidate :: "scrape_config \<Rightarrow> dom_element \<Rightarrow> dom_leaf option \<times> string" where
  "domCandidate cfg el =
     (case (if truthy (titleSelector cfg) then querySelector el (the (titleSelector cfg)) else None) of
        Some titleEl \<Rightarrow>
          (if dom_tagName titleEl = ''A'' then Some (leafOf titleEl)
           else (case closest_a titleEl of
                   Some a \<Rightarrow> Some a
                 | None \<Rightarrow> map_option leafOf (querySelector el ''a'')),
           trim (dom_textContent titleEl))
      | None \<Rightarrow>
          (let anchor = (if dom_tagName el = ''A'' then Some (leafOf el)
                         else map_option leafOf (querySelector el ''a''))
           in (anchor, case anchor of Some a \<Rightarrow> trim (dom_textContent a) | None \<Rightarrow> [])))"

text \<open>
  \<^verbatim>\<open>
  const dateEl = el.querySelector(selector);
  if (dateEl) {
    const dateStr = dateEl.getAttribute('datetime') || dateEl.textContent?.trim();
    if (dateStr) pubDate = dateStr;
  }
  \<close>
\<close>

definition probeDate :: "dom_element \<Rightarrow> string \<Rightarrow> string option" where
  "probeDate el sel =
     (case querySelector el sel of
        None \<Rightarrow> None
      | Some dateEl \<Rightarrow>
          (let dateStr = (if truthy (dom_getAttribute dateEl ''datetime'')
                          then the (dom_getAttribute dateEl ''datetime'')
                          else trim (dom_textContent dateEl))
           in if dateStr \<noteq> [] then Some dateStr else None))"

text \<open>\<open>const e = el.querySelector(selector); if (e) text = e.textContent?.trim() || ''\<close>\<close>

definition probeText :: "dom_element \<Rightarrow> string \<Rightarrow> string" where
  "probeText el sel =
     (case querySelector el sel of None \<Rightarrow> [] | Some e \<Rightarrow> trim (dom_textContent e))"

text \<open>
  The item pushed for an element that passed the checks: the link made absolute with
  \<open>config.baseUrl\<close> or the origin of the page, the date from the configured selector or
  the generic probe (now as the last resort), the description and the author.
\<close>

definition domItem :: "world \<Rightarrow> scrape_config \<Rightarrow> dom_element \<Rightarrow> string \<Rightarrow> string \<Rightarrow> raw_item" where
  "domItem w cfg el t lnk =
     (let lnk' = (if lnk \<noteq> [] \<and> \<not> startsWith lnk ''http'' then
                    (let base = (if truthy (baseUrl cfg) then the (baseUrl cfg)
                                 else urlOrigin w (url cfg))
                     in if startsWith lnk ''/'' then base @ lnk else base @ ''/'' @ lnk)
                  else lnk);
          pd = (if truthy (dateSelector cfg) then
                  (case probeDate el (the (dateSelector cfg)) of Some d \<Rightarrow> d | None \<Rightarrow> nowIso w)
                else if datePattern cfg then nowIso w
                else (case probeDate el ''time, .date, .timestamp, [class*=\"date\"]'' of
                        Some d \<Rightarrow> d | None \<Rightarrow> nowIso w));
          descr = (if truthy (descriptionSelector cfg)
                   then probeText el (the (descriptionSelector cfg)) else []);
          auth = (if truthy (authorSelector cfg) then probeText el (the (authorSelector cfg))
                  else probeText el ''.author, .byline, [rel=\"author\"], .meta-author'')
      in \<lparr>title = Some t, link = Some lnk', description = Some descr, pubDate = Some pd,
          author = Some auth, source = name cfg, fullContent = None\<rparr>)"

text \<open>
  The check of the DOM loop for navigation and utility links:
  \<^verbatim>\<open>
  if (title.toLowerCase().includes('view all') || title.toLowerCase().includes('read more') ||
      title.toLowerCase().includes('subscribe') || title.toLowerCase().includes('sign up') ||
      title.length > 300) continue;
  \<close>
\<close>

definition skipLink :: "string \<Rightarrow> bool" where
  "skipLink t =
     (includesStr (toLowerCase t) ''view all'' \<or> includesStr (toLowerCase t) ''read more''
      \<or> includesStr (toLowerCase t) ''subscribe'' \<or> includesStr (toLowerCase t) ''sign up''
      \<or> length t > 300)"

text \<open>
  The loop of the DOM mode over the first 20 selected elements, with the set \<open>seen\<close>:
  \<^verbatim>\<open>
  if (!anchor) continue;
  let link = anchor.getAttribute('href') || '';
  title = title.replace(/\s+/g, ' ').trim();
  if (!title || title.length < 10 || seen.has(title.toLowerCase())) continue;
  if (... stoplist ... || title.length > 300) continue;
  seen.add(title.toLowerCase());
  ...
  items.push({ title, link, description, pubDate, author, source: config.name });
  \<close>
\<close>

fun domLoop :: "world \<Rightarrow> scrape_config \<Rightarrow> string set \<Rightarrow> dom_element list \<Rightarrow> raw_item list" where
  "domLoop w cfg seen [] = []"
| "domLoop w cfg seen (el # els) =
     (case domCandidate cfg el of
        (None, rawTitle) \<Rightarrow> domLoop w cfg seen els
      | (Some anchor, rawTitle) \<Rightarrow>
          (let lnk = orEmpty (dom_getAttribute anchor ''href'');
               t = trim (collapseWs rawTitle)
           in if t = [] \<or> length t < 10 \<or> toLowerCase t \<in> seen then domLoop w cfg seen els
              else if skipLink t then domLoop w cfg seen els
              else domItem w cfg el t lnk # domLoop w cfg (insert (toLowerCase t) seen) els))"

definition defaultSelectors :: string where
  "defaultSelectors = ''article a, .card a, .insight a, .post a, h2 a, h3 a''"

text \<open>
  \<open>scrapeWebsite\<close>: a failed fetch gives the error; the regex-only mode runs when
  \<open>config.useRegexOnly && config.titlePattern\<close>; otherwise the page is parsed and the DOM
  loop runs, and when the parser throws, the regex loop of the \<open>catch\<close> branch runs if
  there is a \<open>titlePattern\<close>.
\<close>

definition scrapeWebsite :: "world \<Rightarrow> scrape_config \<Rightarrow> scrape_result" where
  "scrapeWebsite w cfg =
     (let result = fst (fetchWithRetry w (url cfg) defaultMaxRetries) in
      if \<not> success result then
        \<lparr>sc_items = [], sc_error = fr_error result, retries = attempt result\<rparr>
      else
        (let html = body (the (fr_response result)) in
         if useRegexOnly cfg \<and> titlePattern cfg \<noteq> None then
           \<lparr>sc_items = regexOnlyLoop w cfg {} (take 20 (the (titlePattern cfg) html)),
            sc_error = None, retries = attempt result\<rparr>
         else
           (case parseHTML w html of
              DomNull \<Rightarrow>
                \<lparr>sc_items = [], sc_error = Some ''Failed to parse HTML'', retries = attempt result\<rparr>
            | Dom doc \<Rightarrow>
                \<lparr>sc_items = domLoop w cfg {}
                    (take 20 (doc_querySelectorAll doc
                       (if truthy (articleSelector cfg) then the (articleSelector cfg)
                        else defaultSelectors))),
                 sc_error = None, retries = attempt result\<rparr>
            | DomThrows \<Rightarrow>
                \<lparr>sc_items = (case titlePattern cfg of
                               None \<Rightarrow> []
                             | Some pat \<Rightarrow> fallbackLoop w cfg {} (take 15 (pat html))),
                 sc_error = None, retries = attempt result\<rparr>)))"



section \<open>Content enricher\<close>

text \<open>\<open>doc.querySelector(sel)?.getAttribute(a)\<close> and \<open>doc.querySelector(sel)?.textContent?.trim()\<close>\<close>

definition attrOf :: "document \<Rightarrow> string \<Rightarrow> string \<Rightarrow> string option" where
  "attrOf doc sel a =
     (case doc_querySelector doc sel of None \<Rightarrow> None | Some e \<Rightarrow> dom_getAttribute e a)"

definition textOf :: "document \<Rightarrow> string \<Rightarrow> string option" where
  "textOf doc sel = map_option (\<lambda>e. trim (dom_textContent e)) (doc_querySelector doc sel)"

definition contentSelectors :: "string list" where
  "contentSelectors =
     [''article'', ''[role=\"main\"]'', ''.post-content'', ''.article-content'', ''.entry-content'',
      ''.main-content'', ''#content'', ''main'']"

text \<open>
  \<^verbatim>\<open>
  for (const selector of contentSelectors) {
    const el = doc.querySelector(selector);
    if (el && el.textContent.trim().length > 300) { content = el.textContent.trim(); break; }
  }
  \<close>
\<close>

fun firstContent :: "document \<Rightarrow> string list \<Rightarrow> string" where
  "firstContent doc [] = []"
| "firstContent doc (selector # rest) =
     (case doc_querySelector doc selector of
        None \<Rightarrow> firstContent doc rest
      | Some el \<Rightarrow>
          (if length (trim (dom_textContent el)) > 300 then trim (dom_textContent el)
           else firstContent doc rest))"

text \<open>
  The fallback: the paragraphs of more than 60 characters, at least three of them, joined by
  an empty line.
\<close>

definition paragraphContent :: "document \<Rightarrow> string" where
  "paragraphContent doc =
     (let substantialParagraphs =
            filter (\<lambda>t. length t > 60)
              (map (\<lambda>p. trim (dom_textContent p)) (doc_querySelectorAll doc ''p''))
      in if length substantialParagraphs \<ge> 3
         then joinWith [CHR 0x0A, CHR 0x0A] substantialParagraphs else [])"

text \<open>
  The body of the \<open>try\<close> of \<open>enrichArticleContent\<close> behind the parsed document: the date
  (first truthy probe wins and overwrites \<open>pubDate\<close>), the author (only when the item has
  none), the content (cut to 8000 characters after the white space is collapsed), and
  the description when it was missing or shorter than 150 characters.
\<close>

definition enrichFromDoc :: "document \<Rightarrow> raw_item \<Rightarrow> raw_item" where
  "enrichFromDoc doc item =
     (let metaDate = firstTruthy
            [attrOf doc ''meta[property=\"article:published_time\"]'' ''content'',
             attrOf doc ''meta[name=\"date\"]'' ''content'',
             attrOf doc ''meta[name=\"pubdate\"]'' ''content'',
             attrOf doc ''meta[name=\"publish_date\"]'' ''content'',
             attrOf doc ''time[datetime]'' ''datetime''];
          item1 = (if truthy metaDate then item\<lparr>pubDate := metaDate\<rparr> else item);
          item2 = (if \<not> truthy (author item1) then
                     (let auth = firstTruthy
                            [attrOf doc ''meta[name=\"author\"]'' ''content'',
                             attrOf doc ''meta[property=\"article:author\"]'' ''content'',
                             textOf doc ''.author'', textOf doc ''.byline'',
                             textOf doc ''[rel=\"author\"]'']
                      in if truthy auth then item1\<lparr>author := auth\<rparr> else item1)
                   else item1);
          content0 = firstContent doc contentSelectors;
          content = (if content0 = [] then paragraphContent doc else content0)
      in if content \<noteq> [] then
           (let full = take 8000 (collapseWs content);
                item3 = item2\<lparr>fullContent := Some full\<rparr>
            in if \<not> truthy (description item3) \<or> length (the (description item3)) < 150
               then item3\<lparr>description := Some (take 300 full @ ''...'')\<rparr>
               else item3)
         else item2)"

text \<open>
  \<^verbatim>\<open>
  async function enrichArticleContent(item) {
    if (!item.link || !item.link.startsWith('http')) return item;
    try {
      const result = await fetchWithRetry(item.link);
      if (!result.success) return item;
      const html = await result.response.text();
      const doc = new DOMParser().parseFromString(html, "text/html");
      if (!doc) return item;
      ...
    } catch (err) { ... }
    return item;
  }
  \<close>
\<close>

definition enrichArticleContent :: "world \<Rightarrow> raw_item \<Rightarrow> raw_item" where
  "enrichArticleContent w item =
     (if \<not> truthy (link item) \<or> \<not> startsWith (the (link item)) ''http'' then item
      else
        (let result = fst (fetchWithRetry w (the (link item)) defaultMaxRetries) in
         if \<not> success result then item
         else (case parseHTML w (body (the (fr_response result))) of
                 DomThrows \<Rightarrow> item
               | DomNull \<Rightarrow> item
               | Dom doc \<Rightarrow> enrichFromDoc doc item)))"

section \<open>Example inputs\<close>

text \<open>A server that answers every request with 404, asked with the default of 3 rounds.\<close>

definition always404 :: world where
  "always404 =
     \<lparr>fetch = (\<lambda>url k. Responds \<lparr>status = 404, retryAfter = None, body = []\<rparr>),
      now = 0, nowIso = [], parseInt10 = (\<lambda>s. None), parseDate = (\<lambda>s. None),
      parseXML = (\<lambda>s. None), parseHTML = (\<lambda>s. DomNull), urlOrigin = (\<lambda>u. u)\<rparr>"

text \<open>
  A feed that the XML library rejects, so that the regex fallback parses it: one dated
  item, one without a date, one with a date that cannot be read, and one without a title.
\<close>

definition sampleFeed :: string where
  "sampleFeed = ''<rss><item><title>FTC Announces New Rule</title><link>https://www.ftc.gov/a</link><pubDate>2024-05-01</pubDate></item><item><title>Undated notice</title></item><item><title>Badly dated notice</title><pubDate>next week</pubDate></item><item><link>https://www.ftc.gov/b</link></item>''"

definition malformedFeed :: world where
  "malformedFeed =
     \<lparr>fetch = (\<lambda>url k. Responds \<lparr>status = 200, retryAfter = None, body = sampleFeed\<rparr>),
      now = 1714608000000, nowIso = ''2024-05-02T00:00:00.000Z'',
      parseInt10 = (\<lambda>s. None),
      parseDate = (\<lambda>s. if s = ''2024-05-01'' then Some 1714521600000 else None),
      parseXML = (\<lambda>s. None),
      parseHTML = (\<lambda>s. DomNull), urlOrigin = (\<lambda>u. u)\<rparr>"

text \<open>A feed of 25 undated items: all pass the date filter, 20 are returned.\<close>

definition plainItem :: "string \<Rightarrow> feed_item" where
  "plainItem t =
     \<lparr>x_title = Str t, x_link = Absent, x_description = Absent, x_pubDate = Absent,
      x_dc_date = Absent, x_summary = Absent, x_content = Absent, x_published = Absent,
      x_updated = Absent\<rparr>"

definition busyFeed :: world where
  "busyFeed =
     \<lparr>fetch = (\<lambda>url k. Responds \<lparr>status = 200, retryAfter = None, body = ''<rss/>''\<rparr>),
      now = 1714521600000, nowIso = ''2024-05-01T00:00:00.000Z'',
      parseInt10 = (\<lambda>s. None), parseDate = (\<lambda>s. None),
      parseXML = (\<lambda>s. Some \<lparr>rss_channel_item =
          ItemArray (map (\<lambda>n. Some (plainItem (''Notice '' @ decimal n))) [1 ..< 26]),
          feed_entry = NoItems, rdf_item = NoItems\<rparr>),
      parseHTML = (\<lambda>s. DomNull), urlOrigin = (\<lambda>u. u)\<rparr>"

text \<open>The worlds and items of the examples.\<close>

definition quietWorld :: world where
  "quietWorld =
     \<lparr>fetch = (\<lambda>url k. Throws ''connection refused''),
      now = 1714608000000, nowIso = ''2024-05-02T00:00:00.000Z'',
      parseInt10 = (\<lambda>s. None), parseDate = (\<lambda>s. None),
      parseXML = (\<lambda>s. None), parseHTML = (\<lambda>s. DomNull), urlOrigin = (\<lambda>u. u)\<rparr>"

definition guidelinesA :: raw_item where
  "guidelinesA = mkItem ''Merger Guidelines'' ''https://www.ftc.gov/a'' [] [] ''FTC Press Releases''"

definition guidelinesB :: raw_item where
  "guidelinesB = mkItem ''Merger Guidelines'' ''https://www.ftc.gov/b'' [] [] ''FTC Competition''"

definition noticeB :: raw_item where
  "noticeB = mkItem ''Premerger Notice'' ''https://www.ftc.gov/b'' [] [] ''FTC Competition''"

definition emptyStore :: update_store where
  "emptyStore = \<lparr>records = [], reachable = True\<rparr>"

definition oldRecord :: regulatory_update where
  "oldRecord =
     \<lparr>u_title = Some ''Merger Guidelines'', u_source_url = Some ''https://www.ftc.gov/2023'',
      created = 1714608000000 - 400 * msPerDay\<rparr>"

definition oldStore :: update_store where
  "oldStore = \<lparr>records = [oldRecord], reachable = True\<rparr>"

definition newFeed :: feed where
  "newFeed = \<lparr>name = ''Law360'', url = ''https://www.law360.com/rss'', region = ''US''\<rparr>"

definition noHealth :: health_store where
  "noHealth = \<lparr>rows = [], health_reachable = True\<rparr>"

definition recovered :: world where
  "recovered =
     quietWorld\<lparr>fetch := (\<lambda>url k. Responds \<lparr>status = 200, retryAfter = None, body = ''<rss/>''\<rparr>)\<rparr>"

definition anchorEl :: "string \<Rightarrow> string \<Rightarrow> dom_element" where
  "anchorEl href txt =
     \<lparr>dom_tagName = ''A'', dom_textContent = txt,
      dom_getAttribute = (\<lambda>a. if a = ''href'' then Some href else None),
      querySelector = (\<lambda>sel. None)\<rparr>"

definition newsPage :: document where
  "newsPage =
     \<lparr>doc_querySelector = (\<lambda>sel. None),
      doc_querySelectorAll = (\<lambda>sel.
        [anchorEl ''/news/fair-access'' ''OCC Issues Final Rule on Fair Access'',
         anchorEl ''/'' ''Home'',
         anchorEl ''/alerts'' ''Sign Up for OCC Alerts'',
         anchorEl ''/news/fair-access-2'' ''OCC ISSUES FINAL RULE ON FAIR ACCESS'',
         anchorEl ''/news/bulletin'' ''OCC Bulletin''])\<rparr>"

definition newsWorld :: world where
  "newsWorld =
     quietWorld\<lparr>fetch := (\<lambda>url k. Responds \<lparr>status = 200, retryAfter = None, body = ''<html/>''\<rparr>),
       parseHTML := (\<lambda>html. Dom newsPage),
       urlOrigin := (\<lambda>u. ''https://www.occ.gov'')\<rparr>"

definition occSite :: scrape_config where
  "occSite =
     \<lparr>name = ''OCC Newsroom'', url = ''https://www.occ.gov/news'', region = ''US'',
      articleSelector = None, titlePattern = None, datePattern = False, baseUrl = None,
      useRegexOnly = False, titleSelector = None, dateSelector = None,
      descriptionSelector = None, authorSelector = None\<rparr>"

definition occSiteRegexOnly :: scrape_config where
  "occSiteRegexOnly =
     occSite\<lparr>useRegexOnly := True,
       titlePattern := Some (\<lambda>html.
         [\<lparr>g1 = Some ''/news/bulletin'', g2 = Some ''OCC Bulletin'', g3 = None, g4 = None\<rparr>,
          \<lparr>g1 = Some ''/alerts'', g2 = Some ''Sign Up for OCC Alerts'', g3 = None, g4 = None\<rparr>])\<rparr>"

section \<open>Properties of the string functions\<close>

lemma afterFirst_None_iff: "afterFirst c xs = None \<longleftrightarrow> c \<notin> set xs"
  by (induction xs) auto

lemma afterFirst_set: "afterFirst c xs = Some r \<Longrightarrow> set r \<subseteq> set xs"
  by (induction xs) (auto split: if_splits)

lemma set_stripTags: "set (stripTags s) \<subseteq> set s"
proof (induction s rule: stripTags.induct)
  case 1
  show ?case by simp
next
  case (2 c cs)
  show ?case
  proof (cases "c = CHR ''<''")
    case False
    with 2 show ?thesis by auto
  next
    case True
    show ?thesis
    proof (cases "afterFirst CHR ''>'' cs")
      case None
      with True 2 show ?thesis by auto
    next
      case (Some rest)
      with True 2 have "set (stripTags rest) \<subseteq> set rest" by simp
      with afterFirst_set [OF Some] True Some show ?thesis by auto
    qed
  qed
qed

lemma stripTags_no_tag: "\<not> hasTag (stripTags s)"
proof (induction s rule: stripTags.induct)
  case 1
  show ?case by simp
next
  case (2 c cs)
  show ?case
  proof (cases "c = CHR ''<''")
    case False
    with 2 show ?thesis by simp
  next
    case True
    show ?thesis
    proof (cases "afterFirst CHR ''>'' cs")
      case None
      then have "CHR ''>'' \<notin> set cs" by (simp add: afterFirst_None_iff)
      with set_stripTags [of cs] have "CHR ''>'' \<notin> set (stripTags cs)" by blast
      with True None 2 show ?thesis by simp
    next
      case (Some rest)
      with True 2 show ?thesis by simp
    qed
  qed
qed

lemma trim_isTrimmed: "isTrimmed (trim s)"
proof (cases "trim s = []")
  case True
  then show ?thesis by (simp add: isTrimmed_def)
next
  case False
  define a where "a = dropWhile isSpace s"
  define b where "b = dropWhile isSpace (rev a)"
  have t: "trim s = rev b" by (simp add: trim_def a_def b_def)
  with False have b: "b \<noteq> []" by simp
  then have hb: "\<not> isSpace (hd b)" unfolding b_def by (rule hd_dropWhile)
  from b have ra: "rev a \<noteq> []" by (auto simp: b_def)
  then have an: "a \<noteq> []" by simp
  then have ha: "\<not> isSpace (hd a)" unfolding a_def by (rule hd_dropWhile)
  obtain pre where "rev a = pre @ b"
    unfolding b_def by (metis takeWhile_dropWhile_id)
  with b have "last b = last (rev a)" by simp
  also have "\<dots> = hd a" using an by (simp add: last_rev)
  finally have lb: "\<not> isSpace (last b)" using ha by simp
  from b hb lb show ?thesis by (simp add: isTrimmed_def t hd_rev last_rev)
qed

section \<open>Text normalisation: what comes out\<close>

text \<open>
  What \<open>extractTextContent\<close> computes: a non-empty string, a non-empty \<open>#text\<close>, or a
  non-empty \<open>#cdata\<close> behind a falsy \<open>#text\<close> is trimmed first and stripped of tags second,
  and no result holds a tag.
\<close>

lemma extractTextContent_trim_then_strip:
  "extractTextContent (Str s) = stripTags (trim s)
   \<and> (t \<noteq> [] \<longrightarrow> extractTextContent (Node (Some t) c h ty r) = stripTags (trim t))
   \<and> (\<not> truthy t' \<and> d \<noteq> [] \<longrightarrow>
        extractTextContent (Node t' (Some d) h ty r) = stripTags (trim d))
   \<and> \<not> hasTag (extractTextContent v)"
proof -
  have 1: "extractTextContent (Str s) = stripTags (trim s)"
    by (simp add: trim_def)
  have 4: "\<not> hasTag (extractTextContent v)"
    by (cases v) (simp_all add: stripTags_no_tag)
  from 1 4 show ?thesis by simp
qed

text \<open>
  The other order, tags first and \<open>trim\<close> last, is the one the title cleaners of the
  scraper use (\<open>title.replace(/<[^>]*>/g, '')...trim()\<close>); its result never has white space
  at an end.
\<close>

lemma strip_then_trim_isTrimmed: "isTrimmed (trim (stripTags s))"
  by (rule trim_isTrimmed)

text \<open>
  C7. The text-normalization function is to return trimmed, tag-stripped text for a plain
  string, a \<open>#text\<close> wrapper and a \<open>#cdata\<close> wrapper. The code calls \<open>trim\<close> before it
  removes the tags, so the white space between a leading or trailing tag and the text
  is still there when the tags are gone: for each of the three shapes the result below
  has a space at both ends, and a title that is only a space inside a tag comes out as
  a space, which the \<open>if (title)\<close> of the parser lets through.
\<close>

theorem extractTextContent_not_trimmed:
  "extractTextContent (Str ''<b> Final rule </b>'') = '' Final rule ''
   \<and> \<not> isTrimmed (extractTextContent (Str ''<b> Final rule </b>''))
   \<and> extractTextContent (Node (Some ''<b> Final rule </b>'') None None None None) = '' Final rule ''
   \<and> extractTextContent (Node None (Some ''<p> Final rule issued today. </p>'') None None None)
        = '' Final rule issued today. ''
   \<and> extractTextContent (Str ''<b> </b>'') = '' ''"
  by (simp add: trim_def isSpace_def isTrimmed_def)

section \<open>Retrying fetcher: client errors\<close>

lemma fetchLoop_client_error:
  assumes "att < maxRetries" and "fetch w addr att = Responds r"
    and "400 \<le> status r" and "status r < 500" and "status r \<noteq> 429"
  shows "fetchLoop w addr maxRetries att lastError zs =
     (\<lparr>success = False, fr_response = None, fr_error = Some (''HTTP '' @ decimal (status r)),
       attempt = att + 1\<rparr>,
      \<lparr>requests = att + 1, sleeps = zs\<rparr>)"
  using assms by (subst fetchLoop.simps) (simp add: ok_def)

text \<open>
  C4. When the round \<open>att\<close> of the loop gets a response with a status in 400..499 other
  than 429, the loop ends there: the result is the failure \<open>HTTP status\<close> with the attempt
  count \<open>att + 1\<close>, no further request is sent and nothing more is slept. So a call
  (with at least one round allowed; the default is 3) whose first response is such a
  status sends exactly one request and returns \<open>success: false\<close> with attempt count 1.
\<close>

theorem fetchWithRetry_client_error_no_retry:
  assumes "400 \<le> status r" and "status r < 500" and "status r \<noteq> 429"
  shows "(att < maxRetries \<and> fetch w addr att = Responds r \<longrightarrow>
            fetchLoop w addr maxRetries att lastError zs =
              (\<lparr>success = False, fr_response = None,
                fr_error = Some (''HTTP '' @ decimal (status r)), attempt = att + 1\<rparr>,
               \<lparr>requests = att + 1, sleeps = zs\<rparr>))
       \<and> (0 < maxRetries \<and> fetch w addr 0 = Responds r \<longrightarrow>
            fetchWithRetry w addr maxRetries =
              (\<lparr>success = False, fr_response = None,
                fr_error = Some (''HTTP '' @ decimal (status r)), attempt = 1\<rparr>,
               \<lparr>requests = 1, sleeps = []\<rparr>))"
  using assms fetchLoop_client_error [of _ maxRetries w addr r]
  by (simp add: fetchWithRetry_def)

theorem fetchWithRetry_client_error_no_retry_witness:
  "fetchWithRetry always404 ''https://www.ftc.gov/feeds/press-release.xml'' defaultMaxRetries =
     (\<lparr>success = False, fr_response = None, fr_error = Some ''HTTP 404'', attempt = 1\<rparr>,
      \<lparr>requests = 1, sleeps = []\<rparr>)"
  using fetchWithRetry_client_error_no_retry
    [of "\<lparr>status = 404, retryAfter = None, body = []\<rparr>" 0 defaultMaxRetries always404
        "''https://www.ftc.gov/feeds/press-release.xml''" None "[]"]
  by (simp add: always404_def defaultMaxRetries_def decimal.simps digit_def)

section \<open>Feed parser: every item has a title\<close>

lemma forEach_titles:
  assumes "\<And>x ys. f x = Inr ys \<Longrightarrow> \<forall>it \<in> set ys. truthy (title it)"
    and "\<forall>it \<in> set acc. truthy (title it)"
    and "forEach f xs acc = Inr res"
  shows "\<forall>it \<in> set res. truthy (title it)"
  using assms(2,3)
proof (induction xs arbitrary: acc)
  case Nil
  then show ?case by simp
next
  case (Cons x xs)
  show ?case
  proof (cases x)
    case None
    with Cons.prems show ?thesis by simp
  next
    case (Some y)
    with Cons.prems obtain new where fy: "f y = Inr new" and r: "forEach f xs (acc @ new) = Inr res"
      by (auto split: sum.splits)
    from assms(1) [OF fy] Cons.prems(1) have "\<forall>it \<in> set (acc @ new). truthy (title it)" by auto
    from Cons.IH [OF this r] show ?thesis .
  qed
qed

lemma mkItem_title: "title (mkItem t l d p f) = Some t"
  by (simp add: mkItem_def)

lemma rssItem_titles: "rssItem f x = Inr ys \<Longrightarrow> \<forall>it \<in> set ys. truthy (title it)"
  by (auto simp: rssItem_def Let_def mkItem_title split: if_splits)

lemma atomEntry_titles: "atomEntry f x = Inr ys \<Longrightarrow> \<forall>it \<in> set ys. truthy (title it)"
  by (auto simp: atomEntry_def Let_def mkItem_title split: if_splits sum.splits)

lemma rdfItem_titles: "rdfItem f x = Inr ys \<Longrightarrow> \<forall>it \<in> set ys. truthy (title it)"
  by (auto simp: rdfItem_def Let_def mkItem_title split: if_splits)

lemma parseStructured_titles:
  assumes "parseStructured f parsed = Inr res"
  shows "\<forall>it \<in> set res. truthy (title it)"
proof -
  from assms obtain i1 i2 where
    1: "forEach (rssItem f) (asArray (rss_channel_item parsed)) [] = Inr i1" and
    2: "forEach (atomEntry f) (asArray (feed_entry parsed)) i1 = Inr i2" and
    3: "forEach (rdfItem f) (asArray (rdf_item parsed)) i2 = Inr res"
    by (auto simp: parseStructured_def split: sum.splits)
  have t1: "\<forall>it \<in> set i1. truthy (title it)"
    by (rule forEach_titles [OF rssItem_titles _ 1]) simp_all
  have t2: "\<forall>it \<in> set i2. truthy (title it)"
    by (rule forEach_titles [OF atomEntry_titles t1 2])
  show ?thesis
    by (rule forEach_titles [OF rdfItem_titles t2 3])
qed

lemma fallback_titles: "\<forall>it \<in> set (parseRssFeedFallback x f). truthy (title it)"
  by (auto simp: parseRssFeedFallback_def Let_def fallbackItem_def fallbackEntry_def mkItem_title
      split: if_splits)

lemma sample_parse:
  "parseRssFeed malformedFeed sampleFeed ''FTC'' =
     [mkItem ''FTC Announces New Rule'' ''https://www.ftc.gov/a'' [] ''2024-05-01'' ''FTC'',
      mkItem ''Undated notice'' [] [] [] ''FTC'',
      mkItem ''Badly dated notice'' [] [] ''next week'' ''FTC'']"
  by code_simp

text \<open>
  C6. Every item that \<open>parseRssFeed\<close> returns, from the RSS 2.0, Atom and RDF branches
  or from the regex fallback, has a title that is a non-empty string; so has every item
  of the fallback parser on its own. An item or entry whose extracted title is empty is
  dropped without a trace: its round of the loop pushes nothing (in an Atom entry only a
  \<open>null\<close> among its links can still throw, which sends the whole feed to the fallback).
\<close>

theorem parseRssFeed_titles_nonempty:
  "(\<forall>it \<in> set (parseRssFeed w xmlText feedName). \<exists>t. title it = Some t \<and> t \<noteq> [])
   \<and> (\<forall>it \<in> set (parseRssFeedFallback xmlText feedName). \<exists>t. title it = Some t \<and> t \<noteq> [])
   \<and> (extractTextContent (x_title x) = [] \<longrightarrow>
        rssItem feedName x = Inr [] \<and> rdfItem feedName x = Inr []
        \<and> (atomEntry feedName x = Inr [] \<or> atomEntry feedName x = Inl TypeError))
   \<and> (extractTagFallback itemXml ''title'' = [] \<longrightarrow>
        fallbackItem feedName itemXml = [] \<and> fallbackEntry feedName itemXml = [])"
proof -
  have tr: "truthy v \<Longrightarrow> \<exists>t. v = Some t \<and> t \<noteq> []" for v
    by (cases v) simp_all
  have "\<forall>it \<in> set (parseRssFeed w xmlText feedName). truthy (title it)"
    using fallback_titles parseStructured_titles
    by (auto simp: parseRssFeed_def split: option.splits sum.splits)
  with fallback_titles tr have 1:
    "(\<forall>it \<in> set (parseRssFeed w xmlText feedName). \<exists>t. title it = Some t \<and> t \<noteq> [])
     \<and> (\<forall>it \<in> set (parseRssFeedFallback xmlText feedName). \<exists>t. title it = Some t \<and> t \<noteq> [])"
    by blast
  have 2: "extractTextContent (x_title x) = [] \<longrightarrow>
        rssItem feedName x = Inr [] \<and> rdfItem feedName x = Inr []
        \<and> (atomEntry feedName x = Inr [] \<or> atomEntry feedName x = Inl TypeError)"
  proof (cases "atomLink (x_link x)")
    case (Inl e)
    then show ?thesis
      by (cases e) (simp add: rssItem_def rdfItem_def atomEntry_def Let_def)
  next
    case (Inr l)
    then show ?thesis
      by (simp add: rssItem_def rdfItem_def atomEntry_def Let_def)
  qed
  have 3: "extractTagFallback itemXml ''title'' = [] \<longrightarrow>
        fallbackItem feedName itemXml = [] \<and> fallbackEntry feedName itemXml = []"
    by (simp add: fallbackItem_def fallbackEntry_def Let_def)
  from 1 2 3 show ?thesis by blast
qed

theorem parseRssFeed_titles_nonempty_witness:
  "mkItem ''Undated notice'' [] [] [] ''FTC'' \<in> set (parseRssFeed malformedFeed sampleFeed ''FTC'')
   \<and> (\<exists>t. title (mkItem ''Undated notice'' [] [] [] ''FTC'') = Some t \<and> t \<noteq> [])
   \<and> length (parseRssFeed malformedFeed sampleFeed ''FTC'') = 3"
  using parseRssFeed_titles_nonempty [of malformedFeed sampleFeed "''FTC''"]
  by (simp add: sample_parse mkItem_def)

section \<open>Fetch of one feed: the cap and the date filter\<close>

text \<open>
  C9. One feed never yields more than 20 items: a successful fetch returns the first 20
  of the items that pass the date filter, a failed one returns none.
\<close>

theorem fetchRssFeed_at_most_20:
  "length (items (fetchRssFeed w fd dateRangeDays)) \<le> 20
   \<and> items (fetchRssFeed w fd dateRangeDays) =
       (if success (fst (fetchWithRetry w (url fd) defaultMaxRetries))
        then take 20 (filter (\<lambda>item. isWithinDateRange w (pubDate item) dateRangeDays)
               (parseRssFeed w (body (the (fr_response (fst (fetchWithRetry w (url fd) defaultMaxRetries)))))
                  (name fd)))
        else [])"
  by (simp add: fetchRssFeed_def Let_def)

lemma busy_parse: "length (parseRssFeed busyFeed ''<rss/>'' ''OCC'') = 25"
  by code_simp

theorem fetchRssFeed_at_most_20_witness:
  "length (parseRssFeed busyFeed ''<rss/>'' ''OCC'') = 25
   \<and> length (items (fetchRssFeed busyFeed
        \<lparr>name = ''OCC'', url = ''https://www.occ.gov/rss/occ_news.xml'', region = ''US''\<rparr> 14)) = 20"
proof -
  let ?fd = "\<lparr>name = ''OCC'', url = ''https://www.occ.gov/rss/occ_news.xml'', region = ''US''\<rparr>"
  have ok: "fetchWithRetry busyFeed ''https://www.occ.gov/rss/occ_news.xml'' defaultMaxRetries =
      (\<lparr>success = True, fr_response = Some \<lparr>status = 200, retryAfter = None, body = ''<rss/>''\<rparr>,
        fr_error = None, attempt = 1\<rparr>, \<lparr>requests = 1, sleeps = []\<rparr>)"
    by (simp add: fetchWithRetry_def fetchLoop.simps defaultMaxRetries_def busyFeed_def ok_def)
  have "\<forall>it \<in> set (parseRssFeed busyFeed ''<rss/>'' ''OCC''). pubDate it = Some []"
    by code_simp
  then have all: "filter (\<lambda>item. isWithinDateRange busyFeed (pubDate item) 14)
        (parseRssFeed busyFeed ''<rss/>'' ''OCC'') = parseRssFeed busyFeed ''<rss/>'' ''OCC''"
    by (simp add: isWithinDateRange_def)
  show ?thesis
    using fetchRssFeed_at_most_20 [of busyFeed ?fd 14] busy_parse
    by (simp add: ok all)
qed

text \<open>
  C10. The date filter treats bad dates in two ways. A missing or empty \<open>pubDate\<close> passes
  (\<open>isWithinDateRange\<close> is true, so the filter keeps the item); a non-empty \<open>pubDate\<close> that
  does not parse as a date fails (the comparison with \<open>NaN\<close> is false), so the item is
  dropped by the filter and is not among the items of \<open>fetchRssFeed\<close>.
\<close>

theorem isWithinDateRange_bad_dates:
  "isWithinDateRange w None dateRangeDays
   \<and> isWithinDateRange w (Some []) dateRangeDays
   \<and> (s \<noteq> [] \<and> parseDate w s = None \<longrightarrow> \<not> isWithinDateRange w (Some s) dateRangeDays)
   \<and> (\<not> truthy (pubDate it) \<longrightarrow>
        (it \<in> set (filter (\<lambda>item. isWithinDateRange w (pubDate item) dateRangeDays) xs)
           \<longleftrightarrow> it \<in> set xs))
   \<and> (pubDate it = Some s \<and> s \<noteq> [] \<and> parseDate w s = None \<longrightarrow>
        it \<notin> set (filter (\<lambda>item. isWithinDateRange w (pubDate item) dateRangeDays) xs)
        \<and> it \<notin> set (items (fetchRssFeed w fd dateRangeDays)))"
proof -
  have drop: "\<not> isWithinDateRange w (Some s) dateRangeDays" if "s \<noteq> []" "parseDate w s = None"
    using that by (simp add: isWithinDateRange_def)
  have "it \<notin> set (items (fetchRssFeed w fd dateRangeDays))"
    if "pubDate it = Some s" "s \<noteq> []" "parseDate w s = None"
  proof
    assume "it \<in> set (items (fetchRssFeed w fd dateRangeDays))"
    then have "isWithinDateRange w (pubDate it) dateRangeDays"
      by (auto simp: fetchRssFeed_def Let_def split: if_splits dest: in_set_takeD)
    with drop that show False by simp
  qed
  with drop show ?thesis
    by (auto simp: isWithinDateRange_def)
qed

theorem isWithinDateRange_bad_dates_witness:
  "isWithinDateRange malformedFeed None 14
   \<and> isWithinDateRange malformedFeed (Some []) 14
   \<and> \<not> isWithinDateRange malformedFeed (Some ''next week'') 14
   \<and> isWithinDateRange malformedFeed (Some ''2024-05-01'') 14
   \<and> items (fetchRssFeed malformedFeed
        \<lparr>name = ''FTC'', url = ''https://www.ftc.gov/feeds/press-release.xml'', region = ''US''\<rparr> 14) =
       [mkItem ''FTC Announces New Rule'' ''https://www.ftc.gov/a'' [] ''2024-05-01'' ''FTC'',
        mkItem ''Undated notice'' [] [] [] ''FTC'']"
proof -
  have ok: "fetchWithRetry malformedFeed ''https://www.ftc.gov/feeds/press-release.xml'' defaultMaxRetries =
      (\<lparr>success = True, fr_response = Some \<lparr>status = 200, retryAfter = None, body = sampleFeed\<rparr>,
        fr_error = None, attempt = 1\<rparr>, \<lparr>requests = 1, sleeps = []\<rparr>)"
    by (simp add: fetchWithRetry_def fetchLoop.simps defaultMaxRetries_def malformedFeed_def ok_def)
  have w: "parseDate malformedFeed ''next week'' = None" "now malformedFeed = 1714608000000"
     "parseDate malformedFeed ''2024-05-01'' = Some 1714521600000"
    by (simp_all add: malformedFeed_def)
  show ?thesis
    using isWithinDateRange_bad_dates [of malformedFeed 14 "''next week''"]
    by (simp add: w fetchRssFeed_def ok sample_parse isWithinDateRange_def msPerDay_def mkItem_def)
qed

section \<open>Deduplicator: one item per key\<close>

lemma batchFilter_titles:
  "distinct (map (\<lambda>i. normKey (title i)) (batchFilter S U xs))
   \<and> (\<forall>i \<in> set (batchFilter S U xs). normKey (title i) \<notin> S)"
proof (induction xs arbitrary: S U)
  case Nil
  show ?case by simp
next
  case (Cons x xs)
  show ?case
    using Cons.IH [of S U]
      Cons.IH [of "insert (normKey (title x)) S" "insert (normKey (link x)) U"]
      Cons.IH [of "insert (normKey (title x)) S" U]
    by (auto simp: Let_def)
qed

lemma batchFilter_urls:
  "distinct (filter truthy (map (\<lambda>i. normKey (link i)) (batchFilter S U xs)))
   \<and> (\<forall>i \<in> set (batchFilter S U xs). truthy (normKey (link i)) \<longrightarrow> normKey (link i) \<notin> U)"
proof (induction xs arbitrary: S U)
  case Nil
  show ?case by simp
next
  case (Cons x xs)
  show ?case
    using Cons.IH [of S U]
      Cons.IH [of "insert (normKey (title x)) S" "insert (normKey (link x)) U"]
      Cons.IH [of "insert (normKey (title x)) S" U]
    by (auto simp: Let_def)
qed

lemma batchFilter_snoc:
  "batchFilter S U (xs @ [x]) =
     batchFilter S U xs @
       (if normKey (title x) \<in> S \<union> (\<lambda>i. normKey (title i)) ` set (batchFilter S U xs)
           \<or> (truthy (normKey (link x))
               \<and> normKey (link x) \<in> U \<union> (\<lambda>i. normKey (link i)) ` set (batchFilter S U xs))
        then [] else [x])"
proof (induction xs arbitrary: S U)
  case Nil
  show ?case by (simp add: Let_def)
next
  case (Cons y ys)
  show ?case
    using Cons.IH [of S U]
      Cons.IH [of "insert (normKey (title y)) S" "insert (normKey (link y)) U"]
      Cons.IH [of "insert (normKey (title y)) S" U]
    by (auto simp: Let_def)
qed

lemma distinct_filter_map_filter:
  "distinct (filter Q (map f xs)) \<Longrightarrow> distinct (filter Q (map f (filter P xs)))"
  by (induction xs) auto

lemma deduplicateItems_sub:
  "\<exists>P. deduplicateItems w st its = filter P (batchFilter {} {} its)"
proof (cases "batchFilter {} {} its = []")
  case True
  then show ?thesis by (simp add: deduplicateItems_def)
next
  case False
  show ?thesis
  proof (cases "filterAll st")
    case None
    with False have "deduplicateItems w st its = filter (\<lambda>i. True) (batchFilter {} {} its)"
      by (simp add: deduplicateItems_def Let_def)
    then show ?thesis by blast
  next
    case (Some fetched)
    with False show ?thesis
      unfolding deduplicateItems_def Let_def by (simp only: if_False option.case) blast
  qed
qed

lemma keys:
  "normKey (Some ''Merger Guidelines'') = Some ''merger guidelines''"
  "normKey (Some ''Premerger Notice'') = Some ''premerger notice''"
  "normKey (Some ''https://www.ftc.gov/a'') = Some ''https://www.ftc.gov/a''"
  "normKey (Some ''https://www.ftc.gov/b'') = Some ''https://www.ftc.gov/b''"
  by (simp_all add: normKey_def trim_def isSpace_def toLowerCase_def lowerChar_def capitals_def smalls_def)

text \<open>
  C1, as the code has it. The result of \<open>deduplicateItems\<close> holds at most one item per
  normalised title and at most one per normalised non-empty URL, and it is taken from
  the result of Phase A. Phase A keeps an item exactly when neither its normalised title
  nor its normalised non-empty URL is a key of an item kept before it: of two items with
  the same key the later one is dropped whenever the earlier one was kept.
\<close>

theorem deduplicateItems_one_per_key:
  "distinct (map (\<lambda>i. normKey (title i)) (deduplicateItems w st its))
   \<and> distinct (filter truthy (map (\<lambda>i. normKey (link i)) (deduplicateItems w st its)))
   \<and> set (deduplicateItems w st its) \<subseteq> set (batchFilter {} {} its)
   \<and> batchFilter {} {} (xs @ [x]) =
       batchFilter {} {} xs @
         (if normKey (title x) \<in> (\<lambda>i. normKey (title i)) ` set (batchFilter {} {} xs)
             \<or> (truthy (normKey (link x))
                 \<and> normKey (link x) \<in> (\<lambda>i. normKey (link i)) ` set (batchFilter {} {} xs))
          then [] else [x])"
proof -
  obtain P where P: "deduplicateItems w st its = filter P (batchFilter {} {} its)"
    using deduplicateItems_sub by blast
  have 1: "distinct (map (\<lambda>i. normKey (title i)) (deduplicateItems w st its))"
    using batchFilter_titles [of "{}" "{}" its] by (simp add: P distinct_map_filter)
  have 2: "distinct (filter truthy (map (\<lambda>i. normKey (link i)) (deduplicateItems w st its)))"
    using batchFilter_urls [of "{}" "{}" its] by (simp add: P distinct_filter_map_filter)
  have 3: "set (deduplicateItems w st its) \<subseteq> set (batchFilter {} {} its)"
    by (auto simp: P)
  from 1 2 3 batchFilter_snoc [of "{}" "{}" xs x] show ?thesis by simp
qed

theorem deduplicateItems_one_per_key_witness:
  "distinct (map (\<lambda>i. normKey (title i))
      (deduplicateItems quietWorld emptyStore [guidelinesA, guidelinesB, noticeB]))
   \<and> batchFilter {} {} ([guidelinesA] @ [guidelinesB]) = [guidelinesA]"
  using deduplicateItems_one_per_key
    [of quietWorld emptyStore "[guidelinesA, guidelinesB, noticeB]" "[guidelinesA]" guidelinesB]
  by (simp add: guidelinesA_def guidelinesB_def mkItem_def Let_def keys)

text \<open>
  C1, as the specification states it, fails: an item that is dropped for its title leaves
  no URL behind. Here the second item is the first occurrence of the URL
  \<open>https://www.ftc.gov/b\<close>; it is dropped (its title repeats the first item's), and the
  third item, a later occurrence of that URL, is kept.
\<close>

theorem deduplicateItems_first_occurrence_dropped:
  "normKey (link guidelinesB) = normKey (link noticeB)
   \<and> truthy (normKey (link guidelinesB))
   \<and> deduplicateItems quietWorld emptyStore [guidelinesA, guidelinesB, noticeB] =
        [guidelinesA, noticeB]"
  by (simp add: deduplicateItems_def filterAll_def emptyStore_def guidelinesA_def guidelinesB_def
      noticeB_def mkItem_def Let_def keys)

section \<open>Deduplicator: the history check\<close>

text \<open>
  What Phase B does when the store answers: the first 500 records of the store, whatever
  their age, give the two membership sets, and an item of the batch is dropped when its
  normalised title or its normalised non-empty URL is in one of them.
\<close>

lemma deduplicateItems_history:
  assumes "reachable st" and "batchFilter {} {} its \<noteq> []"
  shows "deduplicateItems w st its =
     filter (\<lambda>item.
         normKey (title item) \<notin> set (filter truthy (map (\<lambda>u. normKey (u_title u)) (take 500 (records st))))
         \<and> \<not> (truthy (normKey (link item))
              \<and> normKey (link item)
                   \<in> set (filter truthy (map (\<lambda>u. normKey (u_source_url u)) (take 500 (records st))))))
       (batchFilter {} {} its)"
proof -
  have cap: "(if length (records st) > 500 then take 500 (records st) else records st)
      = take 500 (records st)"
    by simp
  show ?thesis
    using assms unfolding deduplicateItems_def filterAll_def Let_def cap
    by (auto intro!: filter_cong)
qed

text \<open>
  C3. The query of Phase B is not bounded to a recent window. The only record of this
  store was written 400 days before the scan, outside the 60 days that the comment in the
  source names, and the item of the batch is dropped as a duplicate of it.
\<close>

theorem deduplicateItems_matches_old_record:
  "created oldRecord < now quietWorld - 60 * msPerDay
   \<and> records oldStore = [oldRecord]
   \<and> deduplicateItems quietWorld oldStore [guidelinesA] = []"
  by (simp add: deduplicateItems_def filterAll_def oldStore_def oldRecord_def guidelinesA_def
      mkItem_def Let_def keys quietWorld_def msPerDay_def)

section \<open>Source health: consecutive failures\<close>

lemma quiet_fetch:
  "fetchWithRetry quietWorld ''https://www.law360.com/rss'' defaultMaxRetries =
     (\<lparr>success = False, fr_response = None, fr_error = Some ''connection refused'', attempt = 3\<rparr>,
      \<lparr>requests = 3, sleeps = [1000, 2000]\<rparr>)"
  by (simp add: fetchWithRetry_def fetchLoop.simps defaultMaxRetries_def quietWorld_def)

lemma recovered_fetch:
  "fetchWithRetry recovered ''https://www.law360.com/rss'' defaultMaxRetries =
     (\<lparr>success = True, fr_response = Some \<lparr>status = 200, retryAfter = None, body = ''<rss/>''\<rparr>,
       fr_error = None, attempt = 1\<rparr>,
      \<lparr>requests = 1, sleeps = []\<rparr>)"
  by (simp add: fetchWithRetry_def fetchLoop.simps defaultMaxRetries_def recovered_def
      quietWorld_def ok_def)

text \<open>
  What the update path does, on a store whose only row is the source's: a failing scan
  adds one to the stored count (a missing count is 0), any other scan stores 0.
\<close>

lemma healthUpdate_existing:
  assumes "health_reachable st" and "rows st = [r]" and "source_url (row r) = source_url h"
  shows "rows (healthUpdate st h) =
     [r\<lparr>row := applyPatch (row r)
         (h\<lparr>consecutive_failures :=
              Some (if h_status h = Failing then orZero (consecutive_failures (row r)) + 1 else 0)\<rparr>)\<rparr>]"
  using assms
  by (simp add: healthUpdate_def SourceHealth_filter_def SourceHealth_update_def Let_def)

text \<open>
  C2. A source without a health record fails three scans in a row. The first scan
  creates the record from the failing health object, which has no
  \<open>consecutive_failures\<close>; the second and third scans go through the update path and
  count 1 and 2. The record shows \<open>failing\<close> with 2 consecutive failures, not 3. A
  successful scan after them stores \<open>healthy\<close> and 0.
\<close>

theorem three_failures_of_new_source:
  "map (\<lambda>r. (source_url (row r), h_status (row r), consecutive_failures (row r)))
     (rows (scanFeedHealth quietWorld newFeed
             (scanFeedHealth quietWorld newFeed
               (scanFeedHealth quietWorld newFeed noHealth)))) =
     [(''https://www.law360.com/rss'', Failing, Some 2)]
   \<and> map (\<lambda>r. (source_url (row r), h_status (row r), consecutive_failures (row r)))
     (rows (scanFeedHealth recovered newFeed
             (scanFeedHealth quietWorld newFeed
               (scanFeedHealth quietWorld newFeed
                 (scanFeedHealth quietWorld newFeed noHealth))))) =
     [(''https://www.law360.com/rss'', Healthy, Some 0)]"
  by (simp add: scanFeedHealth_def fetchRssFeed_def newFeed_def quiet_fetch recovered_fetch
      noHealth_def healthUpdate_def SourceHealth_filter_def SourceHealth_create_def
      SourceHealth_update_def applyPatch_def orPrev_def Let_def)

section \<open>Content enricher: items without an absolute link\<close>

text \<open>
  C8. An item whose link is missing (\<open>undefined\<close> or empty) or does not start with
  \<open>http\<close> comes back from \<open>enrichArticleContent\<close> as it went in: no field is changed
  (and no request is sent).
\<close>

theorem enrichArticleContent_relative_link:
  assumes "link item = None \<or> link item = Some [] \<or> (\<exists>l. link item = Some l \<and> \<not> startsWith l ''http'')"
  shows "enrichArticleContent w item = item"
  using assms by (auto simp: enrichArticleContent_def)

theorem enrichArticleContent_relative_link_witness:
  "enrichArticleContent newsWorld (mkItem ''OCC Bulletin'' ''/news/bulletin'' [] [] ''OCC Newsroom'')
     = mkItem ''OCC Bulletin'' ''/news/bulletin'' [] [] ''OCC Newsroom''
   \<and> \<not> startsWith ''/news/bulletin'' ''http''"
  using enrichArticleContent_relative_link
    [of "mkItem ''OCC Bulletin'' ''/news/bulletin'' [] [] ''OCC Newsroom''" newsWorld]
  by (simp add: mkItem_def)

section \<open>Site scraper: the filter of the DOM mode\<close>

lemma domLoop_titles:
  "\<forall>it \<in> set (domLoop w cfg seen els).
     \<exists>t. title it = Some t \<and> 10 \<le> length t \<and> length t \<le> 300 \<and> \<not> skipLink t
       \<and> toLowerCase t \<notin> seen"
proof (induction els arbitrary: seen)
  case Nil
  show ?case by simp
next
  case (Cons el els)
  show ?case
  proof (cases "domCandidate cfg el")
    case (Pair anchor rawTitle)
    show ?thesis
    proof (cases anchor)
      case None
      with Pair Cons.IH [of seen] show ?thesis by simp
    next
      case (Some a)
      let ?t = "trim (collapseWs rawTitle)"
      show ?thesis
      proof (cases "?t = [] \<or> length ?t < 10 \<or> toLowerCase ?t \<in> seen \<or> skipLink ?t")
        case True
        with Pair Some Cons.IH [of seen] show ?thesis by (auto simp: Let_def)
      next
        case False
        then have len: "length ?t \<le> 300" by (auto simp: skipLink_def)
        have hd: "title (domItem w cfg el ?t (orEmpty (dom_getAttribute a ''href''))) = Some ?t"
          by (simp add: domItem_def Let_def)
        from False Pair Some have eq: "domLoop w cfg seen (el # els) =
            domItem w cfg el ?t (orEmpty (dom_getAttribute a ''href''))
              # domLoop w cfg (insert (toLowerCase ?t) seen) els"
          by (auto simp: Let_def)
        show ?thesis
          unfolding eq using False len hd Cons.IH [of "insert (toLowerCase ?t) seen"]
          by auto
      qed
    qed
  qed
qed

lemma domLoop_distinct:
  "distinct (map (\<lambda>it. map_option toLowerCase (title it)) (domLoop w cfg seen els))"
proof (induction els arbitrary: seen)
  case Nil
  show ?case by simp
next
  case (Cons el els)
  show ?case
  proof (cases "domCandidate cfg el")
    case (Pair anchor rawTitle)
    show ?thesis
    proof (cases anchor)
      case None
      with Pair Cons.IH [of seen] show ?thesis by simp
    next
      case (Some a)
      let ?t = "trim (collapseWs rawTitle)"
      show ?thesis
      proof (cases "?t = [] \<or> length ?t < 10 \<or> toLowerCase ?t \<in> seen \<or> skipLink ?t")
        case True
        with Pair Some Cons.IH [of seen] show ?thesis by (auto simp: Let_def)
      next
        case False
        have hd: "title (domItem w cfg el ?t (orEmpty (dom_getAttribute a ''href''))) = Some ?t"
          by (simp add: domItem_def Let_def)
        from False Pair Some have eq: "domLoop w cfg seen (el # els) =
            domItem w cfg el ?t (orEmpty (dom_getAttribute a ''href''))
              # domLoop w cfg (insert (toLowerCase ?t) seen) els"
          by (auto simp: Let_def)
        have "Some (toLowerCase ?t) \<notin>
            (\<lambda>it. map_option toLowerCase (title it)) ` set (domLoop w cfg (insert (toLowerCase ?t) seen) els)"
          using domLoop_titles [of w cfg "insert (toLowerCase ?t) seen" els] by force
        with Cons.IH [of "insert (toLowerCase ?t) seen"] show ?thesis
          unfolding eq by (simp add: hd)
      qed
    qed
  qed
qed

text \<open>
  C5, as the code has it. In the DOM mode every item has a title of at least 10 and at
  most 300 characters that contains none of \<open>view all\<close>, \<open>read more\<close>, \<open>subscribe\<close> and
  \<open>sign up\<close> (in any case of letters), and no two items of a page have the same lowercase
  title. The threshold is 10 where the regex-only mode has 15, and the stoplist has
  \<open>sign up\<close> in addition.
\<close>

theorem scrapeWebsite_dom_filtering:
  assumes "success (fst (fetchWithRetry w (url cfg) defaultMaxRetries))"
    and "\<not> (useRegexOnly cfg \<and> titlePattern cfg \<noteq> None)"
    and "parseHTML w (body (the (fr_response (fst (fetchWithRetry w (url cfg) defaultMaxRetries)))))
           = Dom doc"
  shows "(\<forall>it \<in> set (sc_items (scrapeWebsite w cfg)).
            \<exists>t. title it = Some t \<and> 10 \<le> length t \<and> length t \<le> 300
              \<and> \<not> includesStr (toLowerCase t) ''view all''
              \<and> \<not> includesStr (toLowerCase t) ''read more''
              \<and> \<not> includesStr (toLowerCase t) ''subscribe''
              \<and> \<not> includesStr (toLowerCase t) ''sign up'')
       \<and> distinct (map (\<lambda>it. map_option toLowerCase (title it)) (sc_items (scrapeWebsite w cfg)))"
proof -
  let ?els = "take 20 (doc_querySelectorAll doc
      (if truthy (articleSelector cfg) then the (articleSelector cfg) else defaultSelectors))"
  from assms have eq: "sc_items (scrapeWebsite w cfg) = domLoop w cfg {} ?els"
    by (auto simp: scrapeWebsite_def Let_def)
  show ?thesis
    unfolding eq using domLoop_titles [of w cfg "{}" ?els] domLoop_distinct [of w cfg "{}" ?els]
    by (fastforce simp: skipLink_def)
qed

lemma news_fetch:
  "fetchWithRetry newsWorld ''https://www.occ.gov/news'' defaultMaxRetries =
     (\<lparr>success = True, fr_response = Some \<lparr>status = 200, retryAfter = None, body = ''<html/>''\<rparr>,
       fr_error = None, attempt = 1\<rparr>,
      \<lparr>requests = 1, sleeps = []\<rparr>)"
  by (simp add: fetchWithRetry_def fetchLoop.simps defaultMaxRetries_def newsWorld_def
      quietWorld_def ok_def)

lemma lower_titles:
  "toLowerCase ''OCC Issues Final Rule on Fair Access'' = ''occ issues final rule on fair access''"
  "toLowerCase ''OCC ISSUES FINAL RULE ON FAIR ACCESS'' = ''occ issues final rule on fair access''"
  "toLowerCase ''Sign Up for OCC Alerts'' = ''sign up for occ alerts''"
  "toLowerCase ''OCC Bulletin'' = ''occ bulletin''"
  by (simp_all add: toLowerCase_def lowerChar_def capitals_def smalls_def)

lemma clean_titles:
  "trim (collapseWs (trim ''OCC Issues Final Rule on Fair Access'')) = ''OCC Issues Final Rule on Fair Access''"
  "trim (collapseWs (trim ''OCC ISSUES FINAL RULE ON FAIR ACCESS'')) = ''OCC ISSUES FINAL RULE ON FAIR ACCESS''"
  "trim (collapseWs (trim ''Sign Up for OCC Alerts'')) = ''Sign Up for OCC Alerts''"
  "trim (collapseWs (trim ''OCC Bulletin'')) = ''OCC Bulletin''"
  "trim (collapseWs (trim ''Home'')) = ''Home''"
  "trim (collapseWs (stripTags ''OCC Bulletin'')) = ''OCC Bulletin''"
  "trim (collapseWs (stripTags ''Sign Up for OCC Alerts'')) = ''Sign Up for OCC Alerts''"
  by (simp_all add: trim_def isSpace_def)

lemma news_world:
  "parseHTML newsWorld h = Dom newsPage"
  "urlOrigin newsWorld u = ''https://www.occ.gov''"
  "nowIso newsWorld = ''2024-05-02T00:00:00.000Z''"
  by (simp_all add: newsWorld_def quietWorld_def)

lemma news_dom:
  "sc_items (scrapeWebsite newsWorld occSite) =
     domLoop newsWorld occSite {} (doc_querySelectorAll newsPage defaultSelectors)"
  by (simp add: scrapeWebsite_def news_fetch news_world occSite_def newsPage_def)

lemma news_titles:
  "map title (sc_items (scrapeWebsite newsWorld occSite)) =
     [Some ''OCC Issues Final Rule on Fair Access'', Some ''OCC Bulletin'']"
  unfolding news_dom by code_simp

lemma news_regex:
  "sc_items (scrapeWebsite newsWorld occSiteRegexOnly) =
     regexOnlyLoop newsWorld occSiteRegexOnly {}
       [\<lparr>g1 = Some ''/news/bulletin'', g2 = Some ''OCC Bulletin'', g3 = None, g4 = None\<rparr>,
        \<lparr>g1 = Some ''/alerts'', g2 = Some ''Sign Up for OCC Alerts'', g3 = None, g4 = None\<rparr>]"
  by (simp add: scrapeWebsite_def news_fetch occSite_def occSiteRegexOnly_def)

lemma news_regex_titles:
  "map title (sc_items (scrapeWebsite newsWorld occSiteRegexOnly)) =
     [Some ''Sign Up for OCC Alerts'']"
  unfolding news_regex by code_simp

theorem scrapeWebsite_dom_filtering_witness:
  "success (fst (fetchWithRetry newsWorld (url occSite) defaultMaxRetries))
   \<and> length (sc_items (scrapeWebsite newsWorld occSite)) = 2
   \<and> distinct (map (\<lambda>it. map_option toLowerCase (title it))
        (sc_items (scrapeWebsite newsWorld occSite)))"
proof -
  have 1: "success (fst (fetchWithRetry newsWorld (url occSite) defaultMaxRetries))"
    by (simp add: occSite_def news_fetch)
  have 2: "\<not> (useRegexOnly occSite \<and> titlePattern occSite \<noteq> None)"
    by (simp add: occSite_def)
  have 3: "parseHTML newsWorld
      (body (the (fr_response (fst (fetchWithRetry newsWorld (url occSite) defaultMaxRetries)))))
        = Dom newsPage"
    by (rule news_world)
  have "length (map title (sc_items (scrapeWebsite newsWorld occSite))) = 2"
    by (simp only: news_titles) simp
  then have len: "length (sc_items (scrapeWebsite newsWorld occSite)) = 2"
    by (simp only: length_map)
  from scrapeWebsite_dom_filtering [OF 1 2 3]
  have d: "distinct (map (\<lambda>it. map_option toLowerCase (title it))
        (sc_items (scrapeWebsite newsWorld occSite)))"
    by (rule conjunct2)
  from 1 len d show ?thesis by blast
qed

text \<open>
  C5, as the specification states it, fails: the DOM mode does not filter as the
  regex-only mode does. On this page it keeps the 12-character title \<open>OCC Bulletin\<close> and
  drops \<open>Sign Up for OCC Alerts\<close>; the regex-only mode, given the same two titles, drops
  the first (shorter than 15) and keeps the second.
\<close>

theorem scrapeWebsite_dom_keeps_short_title:
  "map title (sc_items (scrapeWebsite newsWorld occSite)) =
     [Some ''OCC Issues Final Rule on Fair Access'', Some ''OCC Bulletin'']
   \<and> length ''OCC Bulletin'' < 15
   \<and> map title (sc_items (scrapeWebsite newsWorld occSiteRegexOnly)) =
       [Some ''Sign Up for OCC Alerts'']"
  using news_titles news_regex_titles by simp

end
